theory Spec2Isabelle
  imports Complex_Main "HOL-Library.Word" "HOL-Library.Signed_Division"
begin

section \<open>Conventions of the embedding\<close>

text \<open>
  The Go sources are embedded function by function. A \<^verbatim>\<open>float64\<close> is modelled as a
  \<^typ>\<open>real\<close>: finite values with exact arithmetic, so that rounding error, infinities and
  NaN are outside the model. A \<^verbatim>\<open>uint64\<close> is a \<^typ>\<open>64 word\<close>. An \<^verbatim>\<open>int64\<close> that is
  only stored, compared or multiplied by 1000 (time stamps) is an \<^typ>\<open>int\<close>. Pointers that
  may be nil are options. Every \<^verbatim>\<open>return err\<close> and every panic of the source is a value
  of the type \<open>error\<close> below.
\<close>

datatype error =
    ErrUserNotRegistered
  | ErrUserDataNotFound
  | ErrLoanAlreadyExists
  | ErrNoActiveLoan
  | ErrLoanInWrongState
  | ErrInvalidId
  | ErrNotEnoughQin
  | ErrBadJsonPopulation
  | ErrLoanInDefault
  | ErrInvalidStateValue
  | ErrMultipleActiveLoans
  | ErrDueDateNotSet
  | ErrLessQinThanSelected
  | ErrUserAlreadyExists
  | ErrNoSuchEntity
  | PanicVaryingSize
  | PanicIndexOutOfRange
  | PanicNilDereference

section \<open>Risk assessors (server/era.go)\<close>

record BorrowerApp =
  borrower_id :: string
  principal_amount :: real
  stated_monthly_income :: real
  employment_start_month :: int
  employment_start_year :: int
  employment_status :: string

definition MAX_INTEREST_RATE :: real where
  "MAX_INTEREST_RATE = 0.10"

definition MAX_QIN_COLLATERAL :: real where
  "MAX_QIN_COLLATERAL = 0.5"

definition GRACE_NUM_LOANS :: "64 word" where
  "GRACE_NUM_LOANS = 1"

record BorrowerInformation =
  no_loans :: "64 word"
  successful_loans :: "64 word"
  earned_qin :: real

record ERATerms =
  interest_rate :: real
  qin_collateral :: real
  qin_reward :: real
  interest_reward :: real
  offered_by :: string

text \<open>
  The interface \<^verbatim>\<open>ERA\<close> is a record of its five methods. \<open>predictProbDefault\<close> may
  panic (the built-in scorers call \<^verbatim>\<open>dotProduct\<close>), so it returns a sum.
\<close>

record ERA =
  predictProbDefault :: "BorrowerApp \<Rightarrow> error + real"
  predictInterestRate :: "real \<Rightarrow> real"
  computeQinCollateral :: "real \<Rightarrow> 64 word \<Rightarrow> real"
  computeQinReward :: "real \<Rightarrow> real \<Rightarrow> real"
  rejectBorrower :: "real \<Rightarrow> bool"

definition computeInterestReward :: "real \<Rightarrow> real \<Rightarrow> real \<Rightarrow> real" where
  "computeInterestReward fraction rate loan_principal = fraction * rate * loan_principal"

text \<open>The three "shamelessly fixing" blocks of \<^verbatim>\<open>processBorrowerApp\<close>, in source order.\<close>

definition clamp_prob_default :: "real \<Rightarrow> real" where
  "clamp_prob_default prob_default =
     (if prob_default < 0.0 then 0.0
      else if prob_default > 1.0 then 1.0
      else prob_default)"

definition clamp_interest_rate :: "real \<Rightarrow> real" where
  "clamp_interest_rate rate =
     (if rate < 0.0 then 0.0
      else if rate > MAX_INTEREST_RATE then MAX_INTEREST_RATE
      else rate)"

definition clamp_qin_reward :: "real \<Rightarrow> real" where
  "clamp_qin_reward reward = (if reward < 0.0 then 0.0 else reward)"

text \<open>\<open>None\<close> is the nil pointer the source returns for a rejected borrower.\<close>

definition processBorrowerApp ::
  "ERA \<Rightarrow> BorrowerApp \<Rightarrow> BorrowerInformation \<Rightarrow> real \<Rightarrow> string \<Rightarrow> error + ERATerms option" where
  "processBorrowerApp era borrower_app borrower_information loan_fraction offered =
     (case predictProbDefault era borrower_app of
        Inl e \<Rightarrow> Inl e
      | Inr raw \<Rightarrow>
          let prob_default = clamp_prob_default raw in
          if rejectBorrower era prob_default then Inr None
          else
            let qin_coll =
                  (if no_loans borrower_information \<ge> GRACE_NUM_LOANS
                   then computeQinCollateral era prob_default (successful_loans borrower_information)
                   else 0.0) in
            if no_loans borrower_information \<ge> GRACE_NUM_LOANS
               \<and> earned_qin borrower_information < qin_coll
            then Inr None
            else
              let rate = clamp_interest_rate (predictInterestRate era prob_default);
                  int_reward = loan_fraction * rate;
                  reward = clamp_qin_reward (computeQinReward era prob_default int_reward)
              in Inr (Some \<lparr>interest_rate = rate, qin_collateral = qin_coll,
                             qin_reward = reward, interest_reward = int_reward,
                             offered_by = offered\<rparr>))"

section \<open>Logistic scoring helpers (server/aux.go)\<close>

fun dot_loop :: "real list \<Rightarrow> real list \<Rightarrow> real \<Rightarrow> real" where
  "dot_loop (c # cs) (f # fs) prd = dot_loop cs fs (prd + c * f)"
| "dot_loop _ _ prd = prd"

definition dotProduct :: "real list \<Rightarrow> real list \<Rightarrow> error + real" where
  "dotProduct coefficients features =
     (if length coefficients \<noteq> length features then Inl PanicVaryingSize
      else Inr (dot_loop coefficients features 0.0))"

definition logistic :: "real \<Rightarrow> real" where
  "logistic dotprod = 1 / (1 + exp (-1 * dotprod))"

definition featureToProb :: "real list \<Rightarrow> real list \<Rightarrow> error + real" where
  "featureToProb coefficients features =
     (case dotProduct coefficients features of
        Inl e \<Rightarrow> Inl e
      | Inr dotProd \<Rightarrow> Inr (logistic dotProd))"

section \<open>The built-in assessors\<close>

text \<open>
  \<^verbatim>\<open>make([]float64, n)\<close> followed by \<^verbatim>\<open>append\<close> gives \<open>n\<close> zeros followed by the
  appended values; the model keeps the zeros.
\<close>

definition KivaERA :: ERA where
  "KivaERA = \<lparr>
     predictProbDefault = (\<lambda>borrower_app.
        featureToProb (replicate 2 0 @ [-3.92992243318379, 0.0018010882525536])
                      (replicate 2 0 @ [1.0, principal_amount borrower_app])),
     predictInterestRate = (\<lambda>prob_default. prob_default * MAX_INTEREST_RATE),
     computeQinCollateral = (\<lambda>prob_default num_successful_loans.
        prob_default * MAX_QIN_COLLATERAL * (1.0 / (real (unat num_successful_loans) + 1.0))),
     computeQinReward = (\<lambda>prob_default int_reward. prob_default * int_reward),
     rejectBorrower = (\<lambda>prob_default. prob_default > 0.9) \<rparr>"

definition NUM_COEFFICIENTS :: nat where
  "NUM_COEFFICIENTS = 3"

definition ProsperERA :: ERA where
  "ProsperERA = \<lparr>
     predictProbDefault = (\<lambda>borrower_app.
        featureToProb
          (replicate NUM_COEFFICIENTS 0
             @ [0.0853254321972573, 1.91903762849344 / 10 ^ 5, - 2.81892322338568 / 10 ^ 5])
          (replicate NUM_COEFFICIENTS 0
             @ [1.0, principal_amount borrower_app, stated_monthly_income borrower_app])),
     predictInterestRate = (\<lambda>prob_default. prob_default * MAX_INTEREST_RATE),
     computeQinCollateral = (\<lambda>prob_default num_successful_loans.
        prob_default * MAX_QIN_COLLATERAL * (1.0 / (real (unat num_successful_loans) + 1.0))),
     computeQinReward = (\<lambda>prob_default int_reward. prob_default * int_reward),
     rejectBorrower = (\<lambda>prob_default. prob_default > 0.6) \<rparr>"

definition NaiveERA :: ERA where
  "NaiveERA = \<lparr>
     predictProbDefault = (\<lambda>borrower_app. Inr 0.5),
     predictInterestRate = (\<lambda>prob_default. prob_default * MAX_INTEREST_RATE),
     computeQinCollateral = (\<lambda>prob_default num_successful_loans.
        prob_default * MAX_QIN_COLLATERAL * (1.0 / (real (unat num_successful_loans) + 1.0))),
     computeQinReward = (\<lambda>prob_default int_reward. prob_default * int_reward),
     rejectBorrower = (\<lambda>prob_default. prob_default > 1.0) \<rparr>"

text \<open>
  \<^verbatim>\<open>RandomERA\<close> draws \<^verbatim>\<open>rand.Float64()\<close> in each call of \<open>predictProbDefault\<close>; the
  draw is the parameter \<open>u\<close>.
\<close>

definition RandomERA :: "real \<Rightarrow> ERA" where
  "RandomERA u = \<lparr>
     predictProbDefault = (\<lambda>borrower_app. Inr ((u / 2.0) + 0.5)),
     predictInterestRate = (\<lambda>prob_default. prob_default * MAX_INTEREST_RATE),
     computeQinCollateral = (\<lambda>prob_default num_successful_loans.
        prob_default * MAX_QIN_COLLATERAL * (1.0 / (real (unat num_successful_loans) + 1.0))),
     computeQinReward = (\<lambda>prob_default int_reward. prob_default * int_reward),
     rejectBorrower = (\<lambda>prob_default. prob_default > 1.0) \<rparr>"

section \<open>Rounding and decimal printing\<close>

text \<open>
  \<^verbatim>\<open>math.Copysign(x, y)\<close> is \<open>x\<close> with the sign of \<open>y\<close>, and the conversion
  \<^verbatim>\<open>int(f)\<close> drops the fraction (towards zero); Go defines the conversion for values
  that fit the integer type.
\<close>

definition Copysign :: "real \<Rightarrow> real \<Rightarrow> real" where
  "Copysign x y = (if y < 0 then - \<bar>x\<bar> else \<bar>x\<bar>)"

definition int_of_float64 :: "real \<Rightarrow> int" where
  "int_of_float64 f = (if 0 \<le> f then \<lfloor>f\<rfloor> else \<lceil>f\<rceil>)"

definition Round :: "real \<Rightarrow> real" where
  "Round f = of_int (int_of_float64 (f + Copysign 0.5 f))"

text \<open>\<^verbatim>\<open>strconv.Itoa\<close>: the decimal digits of an integer.\<close>

fun itoa_nat :: "nat \<Rightarrow> string" where
  "itoa_nat n =
     (if n < 10 then [''0123456789'' ! n]
      else itoa_nat (n div 10) @ [''0123456789'' ! (n mod 10)])"

declare itoa_nat.simps [simp del]

definition Itoa :: "int \<Rightarrow> string" where
  "Itoa i = (if i < 0 then CHR ''-'' # itoa_nat (nat (- i)) else itoa_nat (nat i))"

section \<open>Entities of the REST server\<close>

record EmploymentInfo =
  EmploymentStatus :: string
  EmploymentJobTitle :: string
  EmploymentStartMonth :: "int option"
  EmploymentStartYear :: "int option"
  EmploymentIncome :: "real option"
  EmploymentEducation :: string

record ResidenceInfo =
  ResidenceAddr1 :: string
  ResidenceAddr2 :: string
  ResidenceDistrict :: string
  ResidenceCity :: string
  ResidencePostal :: string
  ResidenceProvince :: string
  ResidenceStatus :: string
  ResidenceRentAmt :: "real option"

record User =
  Firstname :: string
  Lastname :: string
  PhoneNum :: string
  DateOfBirth :: string
  QinBalance :: real
  UserDateCreated :: int
  UserEmploymentInfo :: "EmploymentInfo option"
  UserResidenceInfo :: "ResidenceInfo option"

record LoanRequest =
  LoanAmount :: real
  LoanMemo :: string
  LoanPurpose :: string
  TermsAgreed :: bool
  RequestUser :: "User option"

record LoanTerms =
  TermId :: string
  InterestRate :: real
  QinReward :: real
  QinRequired :: real
  AmountOwed :: real
  OfferedBy :: string

record PickupLocation =
  LocationName :: string

record Repayment =
  RepaymentAmount :: real
  Timestamp :: int

record LoanRecord =
  LoanId :: string
  Amount :: real
  CurrencyCode :: string
  DueDate :: int
  Terms :: "LoanTerms list"
  AcceptedTerms :: "LoanTerms option"
  State :: string
  Location :: "PickupLocation option"
  Repayments :: "Repayment list"
  Memo :: string
  Request :: "LoanRequest option"
  RepaidDate :: int
  DateCreated :: int

record LoanHistory =
  LoanRecords :: "LoanRecord list"

record LoanSelectRequest =
  SelectedTerm :: string
  SelectLocation :: PickupLocation

text \<open>
  The datastore holds one \<open>User\<close> entity and one \<open>LoanHistory\<close> entity per user id. A
  transaction whose function returns an error is rolled back. Failures of the datastore
  itself are not modelled; a missing entity is \<open>None\<close>.
\<close>

record Store =
  users :: "string \<rightharpoonup> User"
  histories :: "string \<rightharpoonup> LoanHistory"

definition RunInTransaction :: "(Store \<Rightarrow> error + Store \<times> 'a) \<Rightarrow> Store \<Rightarrow> Store \<times> (error + 'a)" where
  "RunInTransaction f s = (case f s of Inl e \<Rightarrow> (s, Inl e) | Inr (s', r) \<Rightarrow> (s', Inr r))"

text \<open>
  \<^verbatim>\<open>tx.Get(loanHistoryKey, loanHistory)\<close> into a fresh \<open>LoanHistory\<close>, where the error
  \<^verbatim>\<open>ErrNoSuchEntity\<close> is let through: a missing history reads as the empty one.
\<close>

definition get_history :: "Store \<Rightarrow> string \<Rightarrow> LoanHistory" where
  "get_history s uid = (case histories s uid of None \<Rightarrow> \<lparr>LoanRecords = []\<rparr> | Some h \<Rightarrow> h)"

definition put_history :: "Store \<Rightarrow> string \<Rightarrow> LoanHistory \<Rightarrow> Store" where
  "put_history s uid h = s\<lparr>histories := (histories s)(uid \<mapsto> h)\<rparr>"

definition put_user :: "Store \<Rightarrow> string \<Rightarrow> User \<Rightarrow> Store" where
  "put_user s uid u = s\<lparr>users := (users s)(uid \<mapsto> u)\<rparr>"

section \<open>Active loans and the lazy default check\<close>

definition IsLoanActive :: "LoanRecord \<Rightarrow> error + bool" where
  "IsLoanActive loanRecord =
     (if State loanRecord = ''PENDING'' then Inr True
      else if State loanRecord = ''APPROVED'' then Inr True
      else if State loanRecord = ''REJECTED'' then Inr False
      else if State loanRecord = ''ACCEPTED'' then Inr True
      else if State loanRecord = ''SENT'' then Inr True
      else if State loanRecord = ''REPAID'' then Inr False
      else if State loanRecord = ''DEFAULTED'' then Inr False
      else if State loanRecord = ''CANCELED'' then Inr False
      else Inl ErrInvalidStateValue)"

text \<open>
  The loop of \<^verbatim>\<open>ActiveLoanForLoanHistory\<close>: \<open>i\<close> is the index of the record at the head
  of the remaining list, \<open>found\<close> the index the pointer \<^verbatim>\<open>loanRecord\<close> refers to
  (\<^verbatim>\<open>hasFoundLoan\<close> is true exactly when it is set).
\<close>

fun active_loop :: "LoanRecord list \<Rightarrow> nat \<Rightarrow> nat option \<Rightarrow> error + nat option" where
  "active_loop [] i found = Inr found"
| "active_loop (loan # rest) i found =
     (case IsLoanActive loan of
        Inl e \<Rightarrow> Inl e
      | Inr isActive \<Rightarrow>
          if isActive then
            (if found \<noteq> None then Inl ErrMultipleActiveLoans
             else active_loop rest (i + 1) (Some i))
          else active_loop rest (i + 1) found)"

definition ActiveLoanForLoanHistory :: "LoanHistory \<Rightarrow> error + nat option" where
  "ActiveLoanForLoanHistory loanHistory = active_loop (LoanRecords loanHistory) 0 None"

text \<open>
  \<^verbatim>\<open>DefaultActiveLoanIfNecessary\<close> changes the history in place and returns
  \<^verbatim>\<open>(bool, error)\<close>; the model returns the history with both. \<open>now\<close> is
  \<^verbatim>\<open>time.Now().Unix()\<close>, in seconds.
\<close>

definition DefaultActiveLoanIfNecessary ::
  "int \<Rightarrow> LoanHistory \<Rightarrow> LoanHistory \<times> bool \<times> error option" where
  "DefaultActiveLoanIfNecessary now loanHistory =
     (case ActiveLoanForLoanHistory loanHistory of
        Inl e \<Rightarrow> (loanHistory, False, Some e)
      | Inr None \<Rightarrow> (loanHistory, False, None)
      | Inr (Some i) \<Rightarrow>
          let activeLoan = LoanRecords loanHistory ! i in
          if State activeLoan = ''SENT'' then
            (if DueDate activeLoan = 0 then (loanHistory, False, Some ErrDueDateNotSet)
             else
               let currentTime = now * 1000 in
               if DueDate activeLoan < currentTime
               then (loanHistory\<lparr>LoanRecords :=
                        (LoanRecords loanHistory)[i := activeLoan\<lparr>State := ''DEFAULTED''\<rparr>]\<rparr>,
                     True, None)
               else (loanHistory, False, None))
          else (loanHistory, False, None))"

section \<open>The assessor driver (server/era_driver.go)\<close>

definition INITIAL_QIN_BALANCE :: real where
  "INITIAL_QIN_BALANCE = 100.0"

definition ERA_INTEREST_FRACTION :: real where
  "ERA_INTEREST_FRACTION = 0.02"

text \<open>
  The fields of \<^verbatim>\<open>ERADriver\<close> that the request path reads (the source names start with
  an underscore). The balance fields are written by no function modelled here.
\<close>

record ERADriver =
  eras :: "ERA list"
  era_external_names :: "string list"
  eras_qin_balances :: "real list"
  num_eras :: nat

definition constructERADriver :: "real \<Rightarrow> ERADriver" where
  "constructERADriver u = \<lparr>
     eras = [KivaERA, ProsperERA, NaiveERA, RandomERA u],
     era_external_names = [''LendingData'', ''IntelligentAnalytica'', ''ABC Analytica'', ''Star Labs''],
     eras_qin_balances = [INITIAL_QIN_BALANCE, INITIAL_QIN_BALANCE, INITIAL_QIN_BALANCE, INITIAL_QIN_BALANCE],
     num_eras = length [KivaERA, ProsperERA, NaiveERA, RandomERA u] \<rparr>"

text \<open>
  The loop of \<^verbatim>\<open>processBorrowerRequest\<close> over the indices \<open>0 ..< num_eras\<close>. It returns
  the responses with the number of those that are not nil; that number is at most the
  number of assessors, so it is a \<^typ>\<open>nat\<close>.
\<close>

fun request_loop ::
  "ERADriver \<Rightarrow> BorrowerApp \<Rightarrow> BorrowerInformation \<Rightarrow> real \<Rightarrow> nat list
     \<Rightarrow> error + (ERATerms option list \<times> nat)" where
  "request_loop d app info loan_fraction [] = Inr ([], 0)"
| "request_loop d app info loan_fraction (i # rest) =
     (if i \<ge> length (eras d) \<or> i \<ge> length (era_external_names d) then Inl PanicIndexOutOfRange
      else
        case processBorrowerApp (eras d ! i) app info loan_fraction (era_external_names d ! i) of
          Inl e \<Rightarrow> Inl e
        | Inr response \<Rightarrow>
            (case request_loop d app info loan_fraction rest of
               Inl e \<Rightarrow> Inl e
             | Inr (responses, num_not_nil) \<Rightarrow>
                 Inr (response # responses,
                      (if response \<noteq> None then num_not_nil + 1 else num_not_nil))))"

definition processBorrowerRequest ::
  "ERADriver \<Rightarrow> BorrowerApp \<Rightarrow> BorrowerInformation \<Rightarrow> error + (ERATerms option list \<times> nat)" where
  "processBorrowerRequest era_driver borrower_app borrower_information =
     request_loop era_driver borrower_app borrower_information
       (ERA_INTEREST_FRACTION * principal_amount borrower_app) [0 ..< num_eras era_driver]"

section \<open>Loan request\<close>

text \<open>The loop of \<^verbatim>\<open>LoanRequestFun\<close> over the history (era.go, lines 789 to 806).\<close>

fun count_loans :: "LoanRecord list \<Rightarrow> BorrowerInformation \<Rightarrow> error + BorrowerInformation" where
  "count_loans [] info = Inr info"
| "count_loans (loan # rest) info =
     (case IsLoanActive loan of
        Inl e \<Rightarrow> Inl e
      | Inr active \<Rightarrow>
          if active then Inl ErrLoanAlreadyExists
          else
            let info1 = (if State loan = ''REPAID''
                         then info\<lparr>successful_loans := successful_loans info + 1,
                                   no_loans := no_loans info + 1\<rparr>
                         else info);
                info2 = (if State loan = ''DEFAULTED''
                         then info1\<lparr>no_loans := no_loans info1 + 1\<rparr>
                         else info1)
            in count_loans rest info2)"

text \<open>The body of the loop that turns an assessor's response into presented terms.\<close>

definition present_terms :: "string \<Rightarrow> real \<Rightarrow> nat \<Rightarrow> ERATerms \<Rightarrow> LoanTerms" where
  "present_terms loanId amount currentIndex terms =
     (let rate = Round (interest_rate terms * 10000.0) / 10000.0 in
      \<lparr>TermId = loanId @ ''-'' @ Itoa (int currentIndex),
       InterestRate = rate,
       QinReward = Round (qin_reward terms * 100.0) / 100.0,
       QinRequired = Round (qin_collateral terms * 100.0) / 100.0,
       AmountOwed = Round ((1.0 + rate) * amount * 100.0) / 100.0,
       OfferedBy = offered_by terms\<rparr>)"

fun fill_terms :: "string \<Rightarrow> real \<Rightarrow> ERATerms option list \<Rightarrow> nat \<Rightarrow> LoanTerms list" where
  "fill_terms loanId amount [] currentIndex = []"
| "fill_terms loanId amount (None # rest) currentIndex = fill_terms loanId amount rest currentIndex"
| "fill_terms loanId amount (Some terms # rest) currentIndex =
     present_terms loanId amount currentIndex terms
       # fill_terms loanId amount rest (currentIndex + 1)"

definition fallback_terms :: "string \<Rightarrow> real \<Rightarrow> LoanTerms" where
  "fallback_terms loanId amount =
     \<lparr>TermId = loanId @ ''-0'',
      InterestRate = 0.05,
      QinReward = 0.1,
      QinRequired = 0.0,
      AmountOwed = Round ((1.0 + 0.05) * amount * 100.0) / 100.0,
      OfferedBy = ''OneDaijo''\<rparr>"

definition assign_terms :: "string \<Rightarrow> real \<Rightarrow> ERATerms option list \<Rightarrow> nat \<Rightarrow> LoanTerms list" where
  "assign_terms loanId amount era_terms num_not_nil =
     (if num_not_nil > 0 then fill_terms loanId amount era_terms 0
      else [fallback_terms loanId amount])"

definition borrower_app_of :: "string \<Rightarrow> real \<Rightarrow> EmploymentInfo \<Rightarrow> BorrowerApp" where
  "borrower_app_of uid amount emp =
     \<lparr>borrower_id = uid,
      principal_amount = amount,
      stated_monthly_income = (case EmploymentIncome emp of None \<Rightarrow> 0 | Some income \<Rightarrow> income),
      employment_start_month = (case EmploymentStartMonth emp of None \<Rightarrow> 0 | Some m \<Rightarrow> m),
      employment_start_year = (case EmploymentStartYear emp of None \<Rightarrow> 0 | Some y \<Rightarrow> y),
      employment_status = EmploymentStatus emp\<rparr>"

text \<open>
  The transaction of \<^verbatim>\<open>LoanRequestFun\<close>. \<open>loanRecord\<close> is the record built from the
  request before the transaction, \<open>now\<close> the clock read by the default check.
\<close>

definition LoanRequestTx ::
  "ERADriver \<Rightarrow> string \<Rightarrow> int \<Rightarrow> LoanRecord \<Rightarrow> Store \<Rightarrow> error + Store \<times> LoanRecord" where
  "LoanRequestTx eraDriver uid now loanRecord s =
     (case users s uid of
        None \<Rightarrow> Inl ErrUserNotRegistered
      | Some user \<Rightarrow>
          (case (UserEmploymentInfo user, UserResidenceInfo user) of
             (Some emp, Some res) \<Rightarrow>
               (case DefaultActiveLoanIfNecessary now (get_history s uid) of
                  (loanHistory, didModify, Some default_err) \<Rightarrow> Inl default_err
                | (loanHistory, didModify, None) \<Rightarrow>
                    let numPrevLoans = length (LoanRecords loanHistory);
                        loanId = uid @ ''-'' @ Itoa (int numPrevLoans)
                    in
                    (case count_loans (LoanRecords loanHistory)
                            \<lparr>no_loans = 0, successful_loans = 0, earned_qin = QinBalance user\<rparr> of
                       Inl e \<Rightarrow> Inl e
                     | Inr borrowerInfo \<Rightarrow>
                         (case processBorrowerRequest eraDriver
                                 (borrower_app_of uid (Amount loanRecord) emp) borrowerInfo of
                            Inl e \<Rightarrow> Inl e
                          | Inr (era_terms, num_not_nil) \<Rightarrow>
                              let stored = loanRecord\<lparr>
                                    LoanId := loanId,
                                    Request := map_option (\<lambda>r. r\<lparr>RequestUser := Some user\<rparr>)
                                                 (Request loanRecord),
                                    State := ''APPROVED'',
                                    Terms := assign_terms loanId (Amount loanRecord) era_terms num_not_nil\<rparr>
                              in Inr (put_history s uid
                                        (loanHistory\<lparr>LoanRecords := LoanRecords loanHistory @ [stored]\<rparr>),
                                      stored))))
           | _ \<Rightarrow> Inl ErrUserDataNotFound))"

text \<open>
  \<^verbatim>\<open>LoanRequestFun\<close> for an authenticated user \<open>uid\<close> and a decoded request body.
  \<open>created\<close> is the clock read before the transaction.
\<close>

definition LoanRequestFun ::
  "ERADriver \<Rightarrow> string \<Rightarrow> int \<Rightarrow> int \<Rightarrow> LoanRequest \<Rightarrow> Store \<Rightarrow> Store \<times> (error + LoanRecord)" where
  "LoanRequestFun eraDriver uid created now request s =
     (if RequestUser request \<noteq> None \<or> LoanAmount request = 0.0 then (s, Inl ErrBadJsonPopulation)
      else
        let loanRecord = \<lparr>LoanId = [], Amount = LoanAmount request, CurrencyCode = ''PHP'',
                          DueDate = 0, Terms = [], AcceptedTerms = None, State = ''PENDING'',
                          Location = None, Repayments = [], Memo = LoanMemo request,
                          Request = Some request, RepaidDate = 0, DateCreated = created * 1000\<rparr>
        in case RunInTransaction (LoanRequestTx eraDriver uid now loanRecord) s of
             (s', Inl e) \<Rightarrow> (s', Inl e)
           | (s', Inr stored) \<Rightarrow> (s', Inr (stored\<lparr>Request := None\<rparr>)))"

section \<open>Reading the active loan\<close>

text \<open>
  The transaction of \<^verbatim>\<open>GetActiveLoan\<close> and of \<^verbatim>\<open>GetLoans\<close>: the history is written
  back only when the default check changed it. The history read (and possibly changed)
  is returned for the response.
\<close>

definition DefaultCheckTx :: "string \<Rightarrow> int \<Rightarrow> Store \<Rightarrow> error + Store \<times> LoanHistory" where
  "DefaultCheckTx uid now s =
     (case DefaultActiveLoanIfNecessary now (get_history s uid) of
        (loanHistory, didModify, Some default_err) \<Rightarrow> Inl default_err
      | (loanHistory, didModify, None) \<Rightarrow>
          if didModify then Inr (put_history s uid loanHistory, loanHistory)
          else Inr (s, loanHistory))"

definition GetActiveLoan :: "string \<Rightarrow> int \<Rightarrow> Store \<Rightarrow> Store \<times> (error + LoanRecord)" where
  "GetActiveLoan uid now s =
     (case RunInTransaction (DefaultCheckTx uid now) s of
        (s', Inl e) \<Rightarrow> (s', Inl e)
      | (s', Inr loanHistory) \<Rightarrow>
          (case ActiveLoanForLoanHistory loanHistory of
             Inl e \<Rightarrow> (s', Inl e)
           | Inr None \<Rightarrow> (s', Inl ErrNoActiveLoan)
           | Inr (Some i) \<Rightarrow> (s', Inr ((LoanRecords loanHistory ! i)\<lparr>Request := None\<rparr>))))"

definition GetLoans :: "string \<Rightarrow> int \<Rightarrow> Store \<Rightarrow> Store \<times> (error + LoanHistory)" where
  "GetLoans uid now s =
     (case RunInTransaction (DefaultCheckTx uid now) s of
        (s', Inl e) \<Rightarrow> (s', Inl e)
      | (s', Inr loanHistory) \<Rightarrow>
          (s', Inr (loanHistory\<lparr>LoanRecords :=
                      map (\<lambda>loan. loan\<lparr>Request := None\<rparr>) (LoanRecords loanHistory)\<rparr>)))"

section \<open>Selecting an offer\<close>

definition LoanTermsForId :: "string \<Rightarrow> LoanRecord \<Rightarrow> LoanTerms option" where
  "LoanTermsForId termId loanRecord = find (\<lambda>terms. TermId terms = termId) (Terms loanRecord)"

text \<open>The block of \<^verbatim>\<open>SelectLoanOffer\<close> guarded by \<^verbatim>\<open>SelectedTerm != ""\<close>.\<close>

definition select_term :: "LoanSelectRequest \<Rightarrow> User \<Rightarrow> LoanRecord \<Rightarrow> error + LoanRecord" where
  "select_term loanSelectRequest user activeLoan =
     (if SelectedTerm loanSelectRequest \<noteq> [] then
        (if AcceptedTerms activeLoan \<noteq> None then Inl ErrBadJsonPopulation
         else
           case LoanTermsForId (SelectedTerm loanSelectRequest) activeLoan of
             None \<Rightarrow> Inl ErrInvalidId
           | Some terms \<Rightarrow>
               if QinRequired terms > QinBalance user then Inl ErrNotEnoughQin
               else Inr (activeLoan\<lparr>AcceptedTerms := Some terms\<rparr>))
      else Inr activeLoan)"

text \<open>
  The block guarded by \<^verbatim>\<open>Location.LocationName != ""\<close>. The due date is the clock plus
  30 days (taken as 30 times 86400 seconds), cut down to a multiple of a day by Go's
  truncating division, in milliseconds. The second component is the user to write, if any.
\<close>

definition select_pickup ::
  "int \<Rightarrow> LoanSelectRequest \<Rightarrow> User \<Rightarrow> LoanRecord \<Rightarrow> error + LoanRecord \<times> User option" where
  "select_pickup now loanSelectRequest user activeLoan =
     (if LocationName (SelectLocation loanSelectRequest) \<noteq> [] then
        (case AcceptedTerms activeLoan of
           None \<Rightarrow> Inl ErrBadJsonPopulation
         | Some accepted \<Rightarrow>
             let sent = activeLoan\<lparr>
                   Location := Some (SelectLocation loanSelectRequest),
                   DueDate := ((now + 30 * 86400) sdiv 86400 * 86400) * 1000,
                   State := ''SENT''\<rparr>
             in if QinBalance user < QinRequired accepted then Inl ErrLessQinThanSelected
                else Inr (sent, Some (user\<lparr>QinBalance := QinBalance user - QinRequired accepted\<rparr>)))
      else Inr (activeLoan, None))"

definition SelectLoanOfferTx ::
  "string \<Rightarrow> int \<Rightarrow> LoanSelectRequest \<Rightarrow> Store \<Rightarrow> error + Store \<times> LoanRecord" where
  "SelectLoanOfferTx uid now loanSelectRequest s =
     (case users s uid of
        None \<Rightarrow> Inl ErrUserNotRegistered
      | Some user \<Rightarrow>
          let loanHistory = get_history s uid in
          (case ActiveLoanForLoanHistory loanHistory of
             Inl e \<Rightarrow> Inl e
           | Inr None \<Rightarrow> Inl ErrNoActiveLoan
           | Inr (Some i) \<Rightarrow>
               let activeLoan = LoanRecords loanHistory ! i in
               if State activeLoan \<noteq> ''APPROVED'' then Inl ErrLoanInWrongState
               else
                 (case select_term loanSelectRequest user activeLoan of
                    Inl e \<Rightarrow> Inl e
                  | Inr withTerms \<Rightarrow>
                      (case select_pickup now loanSelectRequest user withTerms of
                         Inl e \<Rightarrow> Inl e
                       | Inr (updated, userToPut) \<Rightarrow>
                           let s1 = (case userToPut of None \<Rightarrow> s | Some u \<Rightarrow> put_user s uid u)
                           in Inr (put_history s1 uid
                                     (loanHistory\<lparr>LoanRecords :=
                                        (LoanRecords loanHistory)[i := updated]\<rparr>),
                                   updated)))))"

definition SelectLoanOffer ::
  "string \<Rightarrow> int \<Rightarrow> LoanSelectRequest \<Rightarrow> Store \<Rightarrow> Store \<times> (error + LoanRecord)" where
  "SelectLoanOffer uid now loanSelectRequest s =
     (if LocationName (SelectLocation loanSelectRequest) = [] \<and> SelectedTerm loanSelectRequest = []
      then (s, Inl ErrBadJsonPopulation)
      else
        case RunInTransaction (SelectLoanOfferTx uid now loanSelectRequest) s of
          (s', Inl e) \<Rightarrow> (s', Inl e)
        | (s', Inr activeLoan) \<Rightarrow> (s', Inr (activeLoan\<lparr>Request := None\<rparr>)))"

section \<open>Repayment\<close>

text \<open>
  The transaction of \<^verbatim>\<open>Repay\<close>: \<open>now\<close> is the clock read by the default check,
  \<open>paid\<close> the one read for the repayment, both in seconds. The result carries the
  active record and the flag \<^verbatim>\<open>repaid\<close>.
\<close>

definition RepayTx :: "string \<Rightarrow> int \<Rightarrow> int \<Rightarrow> Store \<Rightarrow> error + Store \<times> (LoanRecord \<times> bool)" where
  "RepayTx uid now paid s =
     (case users s uid of
        None \<Rightarrow> Inl ErrUserNotRegistered
      | Some user \<Rightarrow>
          (case ActiveLoanForLoanHistory (get_history s uid) of
             Inl e \<Rightarrow> Inl e
           | Inr None \<Rightarrow> Inl ErrNoActiveLoan
           | Inr (Some i) \<Rightarrow>
               if State (LoanRecords (get_history s uid) ! i) \<noteq> ''SENT'' then Inl ErrLoanInWrongState
               else
                 (case DefaultActiveLoanIfNecessary now (get_history s uid) of
                    (loanHistory, didModify, Some default_err) \<Rightarrow> Inl default_err
                  | (loanHistory, didModify, None) \<Rightarrow>
                      let activeLoan = LoanRecords loanHistory ! i in
                      if \<not> didModify then
                        (case AcceptedTerms activeLoan of
                           None \<Rightarrow> Inl PanicNilDereference
                         | Some accepted \<Rightarrow>
                             let timestamp = paid * 1000;
                                 repaidLoan = activeLoan\<lparr>
                                   Repayments := Repayments activeLoan
                                      @ [\<lparr>RepaymentAmount = AmountOwed accepted, Timestamp = timestamp\<rparr>],
                                   RepaidDate := timestamp,
                                   State := ''REPAID''\<rparr>;
                                 paidUser = user\<lparr>QinBalance :=
                                   QinBalance user + (QinRequired accepted + QinReward accepted)\<rparr>
                             in Inr (put_history (put_user s uid paidUser) uid
                                       (loanHistory\<lparr>LoanRecords :=
                                          (LoanRecords loanHistory)[i := repaidLoan]\<rparr>),
                                     (repaidLoan, True)))
                      else Inr (put_history s uid loanHistory, (activeLoan, False)))))"

definition Repay :: "string \<Rightarrow> int \<Rightarrow> int \<Rightarrow> Store \<Rightarrow> Store \<times> (error + LoanRecord)" where
  "Repay uid now paid s =
     (case RunInTransaction (RepayTx uid now paid) s of
        (s', Inl e) \<Rightarrow> (s', Inl e)
      | (s', Inr (activeLoan, repaid)) \<Rightarrow>
          if \<not> repaid then (s', Inl ErrLoanInDefault)
          else (s', Inr (activeLoan\<lparr>Request := None\<rparr>)))"

section \<open>Cancelling the active loan\<close>

definition DeleteActiveLoanTx :: "string \<Rightarrow> Store \<Rightarrow> error + Store \<times> unit" where
  "DeleteActiveLoanTx uid s =
     (let loanHistory = get_history s uid in
      case ActiveLoanForLoanHistory loanHistory of
        Inl e \<Rightarrow> Inl e
      | Inr None \<Rightarrow> Inl ErrNoActiveLoan
      | Inr (Some i) \<Rightarrow>
          let activeLoan = LoanRecords loanHistory ! i in
          if State activeLoan \<noteq> ''APPROVED'' \<and> State activeLoan \<noteq> ''PENDING''
          then Inl ErrLoanInWrongState
          else Inr (put_history s uid
                      (loanHistory\<lparr>LoanRecords :=
                         (LoanRecords loanHistory)[i := activeLoan\<lparr>State := ''CANCELED''\<rparr>]\<rparr>),
                    ()))"

text \<open>The result \<open>True\<close> is the response \<^verbatim>\<open>LoanDeleteResponse{Success: true}\<close>.\<close>

definition DeleteActiveLoan :: "string \<Rightarrow> Store \<Rightarrow> Store \<times> (error + bool)" where
  "DeleteActiveLoan uid s =
     (case RunInTransaction (DeleteActiveLoanTx uid) s of
        (s', Inl e) \<Rightarrow> (s', Inl e)
      | (s', Inr u) \<Rightarrow> (s', Inr True))"

section \<open>Registration and profile patches\<close>

text \<open>
  \<^verbatim>\<open>CreateUser\<close> and \<^verbatim>\<open>PatchUser\<close> write the user entity only. \<open>created\<close> is the clock
  read by \<^verbatim>\<open>CreateUser\<close>.
\<close>

definition CreateUser :: "string \<Rightarrow> int \<Rightarrow> User \<Rightarrow> Store \<Rightarrow> Store \<times> (error + User)" where
  "CreateUser uid created user s =
     (if Firstname user = [] \<or> Lastname user = [] \<or> DateOfBirth user = [] \<or> PhoneNum user = []
      then (s, Inl ErrBadJsonPopulation)
      else
        let newUser = user\<lparr>QinBalance := 0.0, UserDateCreated := created * 1000\<rparr> in
        RunInTransaction
          (\<lambda>s. case users s uid of
                  Some scratchUser \<Rightarrow> Inl ErrUserAlreadyExists
                | None \<Rightarrow> Inr (put_user s uid newUser, newUser)) s)"

definition PatchUser :: "string \<Rightarrow> User \<Rightarrow> Store \<Rightarrow> Store \<times> (error + User)" where
  "PatchUser uid user s =
     (if UserEmploymentInfo user = None \<and> UserResidenceInfo user = None
      then (s, Inl ErrBadJsonPopulation)
      else
        RunInTransaction
          (\<lambda>s. case users s uid of
                  None \<Rightarrow> Inl ErrNoSuchEntity
                | Some existingUser \<Rightarrow>
                    let u1 = (if UserEmploymentInfo user \<noteq> None
                              then existingUser\<lparr>UserEmploymentInfo := UserEmploymentInfo user\<rparr>
                              else existingUser);
                        u2 = (if UserResidenceInfo user \<noteq> None
                              then u1\<lparr>UserResidenceInfo := UserResidenceInfo user\<rparr>
                              else u1)
                    in Inr (put_user s uid u2, u2)) s)"

section \<open>Sequences of operations\<close>

text \<open>
  One constructor for each handler that takes part in the loan life cycle, with the
  authenticated user id, the clock readings and the decoded body as arguments. The
  assessor driver is an argument of a loan request, so that a sequence may use any
  assessors, and a different random draw in each request.
\<close>

datatype operation =
    OpCreateUser string int User
  | OpPatchUser string User
  | OpRequestLoan ERADriver string int int LoanRequest
  | OpGetActiveLoan string int
  | OpSelectOffer string int LoanSelectRequest
  | OpRepay string int int
  | OpCancelActiveLoan string
  | OpListLoans string int

fun step :: "operation \<Rightarrow> Store \<Rightarrow> Store" where
  "step (OpCreateUser uid created user) s = fst (CreateUser uid created user s)"
| "step (OpPatchUser uid user) s = fst (PatchUser uid user s)"
| "step (OpRequestLoan d uid created now request) s = fst (LoanRequestFun d uid created now request s)"
| "step (OpGetActiveLoan uid now) s = fst (GetActiveLoan uid now s)"
| "step (OpSelectOffer uid now request) s = fst (SelectLoanOffer uid now request s)"
| "step (OpRepay uid now paid) s = fst (Repay uid now paid s)"
| "step (OpCancelActiveLoan uid) s = fst (DeleteActiveLoan uid s)"
| "step (OpListLoans uid now) s = fst (GetLoans uid now s)"

fun run :: "operation list \<Rightarrow> Store \<Rightarrow> Store" where
  "run [] s = s"
| "run (op # ops) s = run ops (step op s)"

text \<open>A store in which no loan has been requested yet; the users are arbitrary.\<close>

definition no_loans_yet :: "(string \<rightharpoonup> User) \<Rightarrow> Store" where
  "no_loans_yet us = \<lparr>users = us, histories = Map.empty\<rparr>"

section \<open>Notions used to state the properties\<close>

text \<open>The states that count as active, and the states of the enumeration.\<close>

definition in_active_state :: "LoanRecord \<Rightarrow> bool" where
  "in_active_state loan = (State loan \<in> set [''PENDING'', ''APPROVED'', ''SENT'', ''ACCEPTED''])"

definition in_known_state :: "LoanRecord \<Rightarrow> bool" where
  "in_known_state loan =
     (State loan \<in> set [''PENDING'', ''APPROVED'', ''REJECTED'', ''ACCEPTED'', ''SENT'',
                         ''REPAID'', ''DEFAULTED'', ''CANCELED''])"

definition num_active :: "LoanHistory \<Rightarrow> nat" where
  "num_active loanHistory = length (filter in_active_state (LoanRecords loanHistory))"

text \<open>Rounding to the nearest integer, halves away from zero, stated without the code.\<close>

definition round_half_away :: "real \<Rightarrow> int" where
  "round_half_away x = (if 0 \<le> x then \<lfloor>x + 1 / 2\<rfloor> else - \<lfloor>- x + 1 / 2\<rfloor>)"

text \<open>
  What an operation of the user \<open>uid\<close> may do to the histories of a store: nothing, or
  write one history, of that user, with at most one active record.
\<close>

definition hist_effect :: "Store \<Rightarrow> string \<Rightarrow> Store \<Rightarrow> bool" where
  "hist_effect s uid s' \<longleftrightarrow>
     histories s' = histories s
     \<or> (\<exists>hn. histories s' = (histories s)(uid \<mapsto> hn) \<and> num_active hn \<le> 1)"

section \<open>Sample inputs\<close>

text \<open>
  An assessor whose raw outputs are all out of range: probability 7, interest rate 5,
  collateral \<open>- 5\<close>, reward \<open>- 2\<close>; it rejects nobody.
\<close>

definition out_of_range_era :: ERA where
  "out_of_range_era =
     \<lparr>predictProbDefault = (\<lambda>borrower_app. Inr 7),
      predictInterestRate = (\<lambda>prob_default. 5),
      computeQinCollateral = (\<lambda>prob_default num_successful_loans. - 5),
      computeQinReward = (\<lambda>prob_default int_reward. - 2),
      rejectBorrower = (\<lambda>prob_default. False)\<rparr>"

definition sample_app :: BorrowerApp where
  "sample_app =
     \<lparr>borrower_id = ''u'', principal_amount = 1000, stated_monthly_income = 0,
      employment_start_month = 0, employment_start_year = 0, employment_status = ''EMPLOYED''\<rparr>"


definition returning_borrower :: BorrowerInformation where
  "returning_borrower = \<lparr>no_loans = 1, successful_loans = 1, earned_qin = 0\<rparr>"

text \<open>A driver with the assessor \<open>NaiveERA\<close> alone.\<close>

definition naive_driver :: ERADriver where
  "naive_driver = \<lparr>eras = [NaiveERA], era_external_names = [''ABC Analytica''],
     eras_qin_balances = [INITIAL_QIN_BALANCE], num_eras = 1\<rparr>"

text \<open>A registered user \<open>''u''\<close> with a balance of 10 qin, and a request for 1000.\<close>

definition sample_user :: User where
  "sample_user =
     \<lparr>Firstname = ''Ana'', Lastname = ''Cruz'', PhoneNum = ''1'', DateOfBirth = ''1990-01-01'',
      QinBalance = 10, UserDateCreated = 0,
      UserEmploymentInfo = Some \<lparr>EmploymentStatus = ''EMPLOYED'', EmploymentJobTitle = [],
         EmploymentStartMonth = None, EmploymentStartYear = None, EmploymentIncome = None,
         EmploymentEducation = []\<rparr>,
      UserResidenceInfo = Some \<lparr>ResidenceAddr1 = [], ResidenceAddr2 = [], ResidenceDistrict = [],
         ResidenceCity = [], ResidencePostal = [], ResidenceProvince = [],
         ResidenceStatus = ''rent'', ResidenceRentAmt = None\<rparr>\<rparr>"

definition sample_request :: LoanRequest where
  "sample_request =
     \<lparr>LoanAmount = 1000, LoanMemo = [], LoanPurpose = [], TermsAgreed = True, RequestUser = None\<rparr>"

definition sample_select :: LoanSelectRequest where
  "sample_select = \<lparr>SelectedTerm = ''u-0-0'', SelectLocation = \<lparr>LocationName = ''Manila''\<rparr>\<rparr>"

text \<open>
  The record that the request leaves in the history, and the same record once the offer
  and a pickup location were selected at clock reading 0: it is due after 30 days.
\<close>

definition naive_terms :: LoanTerms where
  "naive_terms =
     \<lparr>TermId = ''u-0-0'', InterestRate = 0.05, QinReward = 0.5, QinRequired = 0,
      AmountOwed = 1050, OfferedBy = ''ABC Analytica''\<rparr>"

definition approved_loan :: LoanRecord where
  "approved_loan =
     \<lparr>LoanId = ''u-0'', Amount = 1000, CurrencyCode = ''PHP'', DueDate = 0,
      Terms = [naive_terms], AcceptedTerms = None, State = ''APPROVED'', Location = None,
      Repayments = [], Memo = [],
      Request = Some (sample_request\<lparr>RequestUser := Some sample_user\<rparr>),
      RepaidDate = 0, DateCreated = 0\<rparr>"

definition sent_loan :: LoanRecord where
  "sent_loan = approved_loan\<lparr>
     AcceptedTerms := Some naive_terms,
     Location := Some \<lparr>LocationName = ''Manila''\<rparr>,
     DueDate := 2592000000,
     State := ''SENT''\<rparr>"

definition approved_store :: Store where
  "approved_store =
     \<lparr>users = [''u'' \<mapsto> sample_user], histories = [''u'' \<mapsto> \<lparr>LoanRecords = [approved_loan]\<rparr>]\<rparr>"

definition sent_store :: Store where
  "sent_store =
     \<lparr>users = [''u'' \<mapsto> sample_user], histories = [''u'' \<mapsto> \<lparr>LoanRecords = [sent_loan]\<rparr>]\<rparr>"

text \<open>
  A loan sent with accepted terms of collateral 10, reward 1 and 1050 owed, for a user
  whose balance is 10.
\<close>

definition settlement_terms :: LoanTerms where
  "settlement_terms =
     \<lparr>TermId = ''u-0-0'', InterestRate = 0.05, QinReward = 1, QinRequired = 10,
      AmountOwed = 1050, OfferedBy = ''ABC Analytica''\<rparr>"

definition settlement_loan :: LoanRecord where
  "settlement_loan = sent_loan\<lparr>Terms := [settlement_terms], AcceptedTerms := Some settlement_terms\<rparr>"

definition settlement_store :: Store where
  "settlement_store =
     \<lparr>users = [''u'' \<mapsto> sample_user],
      histories = [''u'' \<mapsto> \<lparr>LoanRecords = [settlement_loan]\<rparr>]\<rparr>"

text \<open>A history with two active records, which no sequence of operations produces.\<close>

definition corrupt_store :: Store where
  "corrupt_store =
     \<lparr>users = [''u'' \<mapsto> sample_user],
      histories = [''u'' \<mapsto> \<lparr>LoanRecords = [approved_loan, sent_loan]\<rparr>]\<rparr>"

section \<open>Clamping of the assessors' outputs\<close>







section \<open>Collateral of an emitted response\<close>

text \<open>
  Claim C6. The collateral of a response is the value \<open>computeQinCollateral\<close> returned, as
  it is: for the assessor \<open>out_of_range_era\<close>, whose \<open>computeQinCollateral\<close> returns \<open>- 5\<close>,
  and a borrower with one earlier loan, the emitted response has collateral \<open>- 5\<close>.
\<close>

theorem processBorrowerApp_negative_collateral:
  "processBorrowerApp out_of_range_era sample_app returning_borrower 20 ''X''
     = Inr (Some \<lparr>interest_rate = 1 / 10, qin_collateral = - 5, qin_reward = 0,
                   interest_reward = 2, offered_by = ''X''\<rparr>)"
  by (simp add: processBorrowerApp_def out_of_range_era_def returning_borrower_def
      clamp_prob_default_def clamp_interest_rate_def clamp_qin_reward_def
      GRACE_NUM_LOANS_def MAX_INTEREST_RATE_def)

section \<open>Collateral and the number of successful loans\<close>

lemma linear_collateral_antimono:
  fixes a b :: nat and p :: real
  assumes "a \<le> b" and "0 \<le> p"
  shows "p * MAX_QIN_COLLATERAL * (1.0 / (real b + 1.0))
           \<le> p * MAX_QIN_COLLATERAL * (1.0 / (real a + 1.0))"
proof -
  have "1 / (real b + 1) \<le> 1 / (real a + 1)"
    using assms(1) by (intro frac_le) simp_all
  then show ?thesis
    using assms(2) by (intro mult_left_mono) (simp_all add: MAX_QIN_COLLATERAL_def)
qed

text \<open>
  Claim C7. For each built-in assessor (for \<open>RandomERA\<close>, whatever the draw) and each
  default probability, which is not negative, the collateral does not grow with the number
  of successful loans.
\<close>

theorem collateral_weakly_decreasing:
  assumes "era \<in> {KivaERA, ProsperERA, NaiveERA, RandomERA u}"
    and "0 \<le> prob_default" and "s1 \<le> s2"
  shows "computeQinCollateral era prob_default s2 \<le> computeQinCollateral era prob_default s1"
proof -
  from \<open>s1 \<le> s2\<close> have "unat s1 \<le> unat s2"
    by (simp only: word_le_nat_alt)
  from linear_collateral_antimono [OF this \<open>0 \<le> prob_default\<close>] assms(1) show ?thesis
    by (auto simp: KivaERA_def ProsperERA_def NaiveERA_def RandomERA_def)
qed

theorem collateral_weakly_decreasing_witness:
  "NaiveERA \<in> {KivaERA, ProsperERA, NaiveERA, RandomERA 0} \<and> (0::real) \<le> 1 / 2
   \<and> (0 :: 64 word) \<le> 3
   \<and> computeQinCollateral NaiveERA (1 / 2) 3 \<le> computeQinCollateral NaiveERA (1 / 2) 0
   \<and> computeQinCollateral NaiveERA (1 / 2) 3 = 1 / 16
   \<and> computeQinCollateral NaiveERA (1 / 2) 0 = 1 / 4"
proof -
  have m: "NaiveERA \<in> {KivaERA, ProsperERA, NaiveERA, RandomERA 0}" by simp
  have p: "(0::real) \<le> 1 / 2" by simp
  have s: "(0 :: 64 word) \<le> 3" by simp
  show ?thesis
    using collateral_weakly_decreasing [OF m p s] m
    by (simp add: NaiveERA_def MAX_QIN_COLLATERAL_def)
qed

section \<open>Rounding of the presented terms\<close>

lemma Round_eq: "Round f = of_int (round_half_away f)"
  by (auto simp: Round_def round_half_away_def int_of_float64_def Copysign_def ceiling_def)




section \<open>The responses of the driver and the assigned terms\<close>




lemma LoanRequestFun_success:
  assumes "LoanRequestFun d uid created now request s = (s', Inr loan)"
  shows "\<exists>user emp res h m info rs n.
           users s uid = Some user \<and> UserEmploymentInfo user = Some emp
         \<and> UserResidenceInfo user = Some res
         \<and> RequestUser request = None \<and> LoanAmount request \<noteq> 0
         \<and> DefaultActiveLoanIfNecessary now (get_history s uid) = (h, m, None)
         \<and> count_loans (LoanRecords h)
              \<lparr>no_loans = 0, successful_loans = 0, earned_qin = QinBalance user\<rparr> = Inr info
         \<and> processBorrowerRequest d (borrower_app_of uid (LoanAmount request) emp) info = Inr (rs, n)
         \<and> LoanId loan = uid @ ''-'' @ Itoa (int (length (LoanRecords h)))
         \<and> Terms loan = assign_terms (LoanId loan) (LoanAmount request) rs n
         \<and> State loan = ''APPROVED''
         \<and> Amount loan = LoanAmount request
         \<and> s' = put_history s uid (h\<lparr>LoanRecords := LoanRecords h
                   @ [loan\<lparr>Request := Some (request\<lparr>RequestUser := Some user\<rparr>)\<rparr>]\<rparr>)"
  using assms
  unfolding LoanRequestFun_def RunInTransaction_def LoanRequestTx_def Let_def
  by (auto split: if_splits option.splits sum.splits prod.splits)

section \<open>Evaluation of the sample inputs\<close>


lemmas sample_defs =
  naive_driver_def sample_user_def sample_request_def sample_select_def naive_terms_def
  approved_loan_def sent_loan_def approved_store_def sent_store_def settlement_terms_def
  settlement_loan_def settlement_store_def corrupt_store_def no_loans_yet_def

lemmas request_defs =
  LoanRequestFun_def LoanRequestTx_def RunInTransaction_def
  DefaultActiveLoanIfNecessary_def ActiveLoanForLoanHistory_def IsLoanActive_def
  get_history_def put_history_def put_user_def
  processBorrowerRequest_def processBorrowerApp_def NaiveERA_def borrower_app_of_def
  clamp_prob_default_def clamp_interest_rate_def clamp_qin_reward_def
  GRACE_NUM_LOANS_def MAX_QIN_COLLATERAL_def MAX_INTEREST_RATE_def ERA_INTEREST_FRACTION_def
  assign_terms_def present_terms_def fallback_terms_def Round_eq round_half_away_def
  Itoa_def itoa_nat.simps Let_def

lemmas handler_defs =
  RunInTransaction_def DefaultActiveLoanIfNecessary_def ActiveLoanForLoanHistory_def
  IsLoanActive_def get_history_def put_history_def put_user_def Let_def
  SelectLoanOfferTx_def SelectLoanOffer_def select_term_def select_pickup_def LoanTermsForId_def
  RepayTx_def Repay_def GetActiveLoan_def GetLoans_def DefaultCheckTx_def
  DeleteActiveLoan_def DeleteActiveLoanTx_def

lemma first_request:
  "LoanRequestFun naive_driver ''u'' 0 0 sample_request (no_loans_yet [''u'' \<mapsto> sample_user])
     = (approved_store, Inr (approved_loan\<lparr>Request := None\<rparr>))"
  by (simp add: request_defs sample_defs)

section \<open>The fallback offer\<close>



section \<open>The active record of a history\<close>

lemma IsLoanActive_eq:
  "IsLoanActive loan =
     (if in_known_state loan then Inr (in_active_state loan) else Inl ErrInvalidStateValue)"
  by (simp add: IsLoanActive_def in_known_state_def in_active_state_def)

lemma active_imp_known: "in_active_state loan \<Longrightarrow> in_known_state loan"
  by (auto simp: in_known_state_def in_active_state_def)

lemma active_loop_Cons:
  "active_loop (loan # rest) i found =
     (if \<not> in_known_state loan then Inl ErrInvalidStateValue
      else if in_active_state loan then
        (if found \<noteq> None then Inl ErrMultipleActiveLoans else active_loop rest (i + 1) (Some i))
      else active_loop rest (i + 1) found)"
  by (simp add: IsLoanActive_eq)

lemma active_loop_inactive:
  assumes "\<forall>x \<in> set xs. in_known_state x \<and> \<not> in_active_state x"
  shows "active_loop xs k found = Inr found"
  using assms by (induction xs arbitrary: k) (simp_all add: active_loop_Cons del: active_loop.simps(2))

lemma active_loop_found:
  assumes "active_loop xs k (Some f) = Inr r"
  shows "r = Some f \<and> (\<forall>x \<in> set xs. in_known_state x \<and> \<not> in_active_state x)"
  using assms
  by (induction xs arbitrary: k) (auto simp: active_loop_Cons simp del: active_loop.simps(2) split: if_splits)

lemma active_loop_none:
  assumes "active_loop xs k None = Inr None"
  shows "\<forall>x \<in> set xs. in_known_state x \<and> \<not> in_active_state x"
  using assms
proof (induction xs arbitrary: k)
  case Nil
  then show ?case by simp
next
  case (Cons x xs)
  show ?case
  proof (cases "in_active_state x")
    case True
    with Cons.prems have "active_loop xs (k + 1) (Some k) = Inr None"
      by (simp add: active_loop_Cons del: active_loop.simps(2) split: if_splits)
    from active_loop_found [OF this] show ?thesis by simp
  next
    case False
    with Cons.prems Cons.IH [of "k + 1"] show ?thesis
      by (simp add: active_loop_Cons del: active_loop.simps(2) split: if_splits)
  qed
qed

lemma active_loop_some:
  assumes "active_loop xs k None = Inr (Some i)"
  shows "k \<le> i \<and> i - k < length xs \<and> in_active_state (xs ! (i - k))
       \<and> (\<forall>x \<in> set xs. in_known_state x)
       \<and> (\<forall>j < length xs. j \<noteq> i - k \<longrightarrow> \<not> in_active_state (xs ! j))"
  using assms
proof (induction xs arbitrary: k)
  case Nil
  then show ?case by simp
next
  case (Cons x xs)
  show ?case
  proof (cases "in_active_state x")
    case True
    with Cons.prems have run: "active_loop xs (k + 1) (Some k) = Inr (Some i)"
      and kn: "in_known_state x"
      by (simp_all add: active_loop_Cons del: active_loop.simps(2) split: if_splits)
    from active_loop_found [OF run] have "i = k"
      and rest: "\<forall>y \<in> set xs. in_known_state y \<and> \<not> in_active_state y"
      by simp_all
    with True kn show ?thesis
      by (auto simp: nth_Cons split: nat.splits)
  next
    case False
    with Cons.prems have run: "active_loop xs (k + 1) None = Inr (Some i)"
      and kn: "in_known_state x"
      by (simp_all add: active_loop_Cons del: active_loop.simps(2) split: if_splits)
    from Cons.IH [OF run] have ih: "k + 1 \<le> i" "i - (k + 1) < length xs"
      "in_active_state (xs ! (i - (k + 1)))" "\<forall>y \<in> set xs. in_known_state y"
      "\<forall>j < length xs. j \<noteq> i - (k + 1) \<longrightarrow> \<not> in_active_state (xs ! j)"
      by simp_all
    from ih(1) obtain d where d: "i - k = Suc d" "i - (k + 1) = d"
      by (cases "i - k") auto
    show ?thesis
    proof (intro conjI)
      show "k \<le> i" using ih(1) by simp
      show "i - k < length (x # xs)" using ih(2) d by simp
      show "in_active_state ((x # xs) ! (i - k))" using ih(3) d by simp
      show "\<forall>y \<in> set (x # xs). in_known_state y" using ih(4) kn by simp
      show "\<forall>j < length (x # xs). j \<noteq> i - k \<longrightarrow> \<not> in_active_state ((x # xs) ! j)"
      proof (intro allI impI)
        fix j assume "j < length (x # xs)" "j \<noteq> i - k"
        then show "\<not> in_active_state ((x # xs) ! j)"
          using False ih(5) d by (cases j) auto
      qed
    qed
  qed
qed

lemma filter_empty_count: "(\<forall>x \<in> set xs. \<not> P x) \<Longrightarrow> length (filter P xs) = 0"
  by (induction xs) simp_all

lemma filter_single_count:
  assumes "i < length xs" and "P (xs ! i)" and "\<forall>j < length xs. j \<noteq> i \<longrightarrow> \<not> P (xs ! j)"
  shows "length (filter P xs) = 1"
  using assms
proof (induction xs arbitrary: i)
  case Nil
  then show ?case by simp
next
  case (Cons x xs)
  show ?case
  proof (cases i)
    case 0
    with Cons.prems have "P x" and "\<forall>j < length xs. \<not> P (xs ! j)"
      by auto
    then have "\<forall>y \<in> set xs. \<not> P y"
      by (auto simp: in_set_conv_nth)
    with \<open>P x\<close> show ?thesis by (simp add: filter_empty_count)
  next
    case (Suc d)
    with Cons.prems have "d < length xs" "P (xs ! d)" by simp_all
    moreover from Cons.prems Suc have "\<forall>j < length xs. j \<noteq> d \<longrightarrow> \<not> P (xs ! j)"
      by (metis Suc_less_eq length_Cons nat.inject nth_Cons_Suc)
    moreover from Cons.prems Suc have "\<not> P x"
      by (metis length_greater_0_conv list.discI nat.discI nth_Cons_0)
    ultimately show ?thesis using Cons.IH [of d] by simp
  qed
qed

lemma filter_update_count:
  assumes "i < length xs"
  shows "length (filter P (xs[i := y])) + (if P (xs ! i) then 1 else 0)
           = length (filter P xs) + (if P y then 1 else 0)"
  using assms
proof (induction xs arbitrary: i)
  case Nil
  then show ?case by simp
next
  case (Cons x xs)
  then show ?case by (cases i) auto
qed

lemma active_loop_error:
  assumes "(\<exists>x \<in> set xs. \<not> in_known_state x)
         \<or> length (filter in_active_state xs) + (if found = None then 0 else 1) > 1"
  shows "\<exists>e. active_loop xs k found = Inl e"
proof (cases "active_loop xs k found")
  case (Inl e)
  then show ?thesis by simp
next
  case (Inr r)
  show ?thesis
  proof (cases found)
    case (Some f)
    from active_loop_found [OF Inr [unfolded Some]] assms Some show ?thesis
      by (simp add: filter_empty_count)
  next
    case None
    show ?thesis
    proof (cases r)
      case n: None
      from active_loop_none [OF Inr [unfolded None n]] assms None show ?thesis
        by (simp add: filter_empty_count)
    next
      case (Some i)
      from active_loop_some [OF Inr [unfolded None Some]]
      have "length (filter in_active_state xs) = 1" and "\<forall>x \<in> set xs. in_known_state x"
        using filter_single_count [of "i - k" xs in_active_state] by simp_all
      with assms None show ?thesis by simp
    qed
  qed
qed

lemma ActiveLoan_None:
  assumes "ActiveLoanForLoanHistory h = Inr None"
  shows "(\<forall>x \<in> set (LoanRecords h). in_known_state x \<and> \<not> in_active_state x) \<and> num_active h = 0"
  using active_loop_none [OF assms [unfolded ActiveLoanForLoanHistory_def]]
  by (simp add: num_active_def filter_empty_count)

lemma ActiveLoan_Some:
  assumes "ActiveLoanForLoanHistory h = Inr (Some i)"
  shows "i < length (LoanRecords h) \<and> in_active_state (LoanRecords h ! i)
       \<and> (\<forall>x \<in> set (LoanRecords h). in_known_state x)
       \<and> (\<forall>j < length (LoanRecords h). j \<noteq> i \<longrightarrow> \<not> in_active_state (LoanRecords h ! j))
       \<and> num_active h = 1"
  using active_loop_some [OF assms [unfolded ActiveLoanForLoanHistory_def]]
    filter_single_count [of i "LoanRecords h" in_active_state]
  by (simp add: num_active_def)

lemma ActiveLoan_inactive:
  assumes "\<forall>x \<in> set (LoanRecords h). in_known_state x \<and> \<not> in_active_state x"
  shows "ActiveLoanForLoanHistory h = Inr None"
  unfolding ActiveLoanForLoanHistory_def by (rule active_loop_inactive [OF assms])

lemma num_active_update:
  assumes "i < length (LoanRecords h)" and "in_active_state (LoanRecords h ! i)"
  shows "num_active (h\<lparr>LoanRecords := (LoanRecords h)[i := y]\<rparr>) + 1
           = num_active h + (if in_active_state y then 1 else 0)"
  using filter_update_count [OF assms(1), of in_active_state y] assms(2)
  by (simp add: num_active_def)

section \<open>The lazy default check\<close>

lemma Default_unfold:
  "DefaultActiveLoanIfNecessary now h =
     (case ActiveLoanForLoanHistory h of
        Inl e \<Rightarrow> (h, False, Some e)
      | Inr None \<Rightarrow> (h, False, None)
      | Inr (Some i) \<Rightarrow>
          if State (LoanRecords h ! i) = ''SENT'' then
            (if DueDate (LoanRecords h ! i) = 0 then (h, False, Some ErrDueDateNotSet)
             else if DueDate (LoanRecords h ! i) < now * 1000
             then (h\<lparr>LoanRecords := (LoanRecords h)[i := (LoanRecords h ! i)\<lparr>State := ''DEFAULTED''\<rparr>]\<rparr>,
                   True, None)
             else (h, False, None))
          else (h, False, None))"
  by (simp add: DefaultActiveLoanIfNecessary_def Let_def split: sum.splits option.splits)

lemma Default_not_modified:
  assumes "DefaultActiveLoanIfNecessary now h = (h1, False, err)"
  shows "h1 = h"
  using assms
  by (auto simp: Default_unfold split: sum.splits option.splits if_splits)

lemma Default_modified:
  assumes "DefaultActiveLoanIfNecessary now h = (h1, True, err)"
  shows "err = None \<and> (\<exists>i. ActiveLoanForLoanHistory h = Inr (Some i)
           \<and> State (LoanRecords h ! i) = ''SENT'' \<and> DueDate (LoanRecords h ! i) \<noteq> 0
           \<and> DueDate (LoanRecords h ! i) < now * 1000
           \<and> h1 = h\<lparr>LoanRecords := (LoanRecords h)[i := (LoanRecords h ! i)\<lparr>State := ''DEFAULTED''\<rparr>]\<rparr>)"
  using assms
  by (auto simp: Default_unfold split: sum.splits option.splits if_splits)

lemma defaulted_inactive:
  "in_known_state (loan\<lparr>State := ''DEFAULTED''\<rparr>) \<and> \<not> in_active_state (loan\<lparr>State := ''DEFAULTED''\<rparr>)"
  by (simp add: in_known_state_def in_active_state_def)

lemma update_active_inactive:
  assumes "ActiveLoanForLoanHistory h = Inr (Some i)"
    and "in_known_state y" and "\<not> in_active_state y"
  shows "\<forall>x \<in> set ((LoanRecords h)[i := y]). in_known_state x \<and> \<not> in_active_state x"
proof
  fix x assume "x \<in> set ((LoanRecords h)[i := y])"
  then obtain j where j: "j < length (LoanRecords h)" "x = (LoanRecords h)[i := y] ! j"
    by (auto simp: in_set_conv_nth)
  from ActiveLoan_Some [OF assms(1)] have
    others: "\<forall>j < length (LoanRecords h). j \<noteq> i \<longrightarrow> \<not> in_active_state (LoanRecords h ! j)"
    and known: "\<forall>x \<in> set (LoanRecords h). in_known_state x"
    by simp_all
  show "in_known_state x \<and> \<not> in_active_state x"
  proof (cases "j = i")
    case True
    with j assms show ?thesis by simp
  next
    case False
    with j others known show ?thesis by simp
  qed
qed

lemma Default_modified_inactive:
  assumes "DefaultActiveLoanIfNecessary now h = (h1, True, err)"
  shows "\<forall>x \<in> set (LoanRecords h1). in_known_state x \<and> \<not> in_active_state x"
proof -
  from Default_modified [OF assms] obtain i where
    i: "ActiveLoanForLoanHistory h = Inr (Some i)"
    and h1: "h1 = h\<lparr>LoanRecords := (LoanRecords h)[i := (LoanRecords h ! i)\<lparr>State := ''DEFAULTED''\<rparr>]\<rparr>"
    by blast
  from update_active_inactive [OF i, of "(LoanRecords h ! i)\<lparr>State := ''DEFAULTED''\<rparr>"]
    defaulted_inactive [of "LoanRecords h ! i"] h1
  show ?thesis by simp
qed

text \<open>
  Claim C8. Applying the lazy default check to the history that a first application left,
  at the same clock reading, leaves that history as it is and reports that nothing was
  modified; the error it returns, if any, is the one of the first application.
\<close>

theorem default_check_idempotent:
  "DefaultActiveLoanIfNecessary now (fst (DefaultActiveLoanIfNecessary now h))
     = (fst (DefaultActiveLoanIfNecessary now h), False,
        snd (snd (DefaultActiveLoanIfNecessary now h)))"
proof -
  obtain h1 m err where r: "DefaultActiveLoanIfNecessary now h = (h1, m, err)"
    by (cases "DefaultActiveLoanIfNecessary now h") auto
  show ?thesis
  proof (cases m)
    case False
    with r Default_not_modified [of now h h1 err] show ?thesis by simp
  next
    case True
    with r have r': "DefaultActiveLoanIfNecessary now h = (h1, True, err)" by simp
    from Default_modified [OF r'] have "err = None" by simp
    moreover from ActiveLoan_inactive [OF Default_modified_inactive [OF r']]
    have "DefaultActiveLoanIfNecessary now h1 = (h1, False, None)"
      by (simp add: Default_unfold)
    ultimately show ?thesis using r by simp
  qed
qed

lemma Default_ok_num_active:
  assumes "DefaultActiveLoanIfNecessary now h = (h1, m, None)"
  shows "num_active h1 \<le> 1 \<and> (\<forall>x \<in> set (LoanRecords h1). in_known_state x)"
proof (cases m)
  case True
  with assms Default_modified_inactive [of now h h1 None] show ?thesis
    by (simp add: num_active_def filter_empty_count)
next
  case False
  with assms Default_not_modified [of now h h1 None] have "h1 = h" by simp
  moreover from assms have "\<exists>r. ActiveLoanForLoanHistory h = Inr r"
    by (auto simp: Default_unfold split: sum.splits)
  ultimately show ?thesis
    using ActiveLoan_None [of h] ActiveLoan_Some [of h]
    by (metis le_numeral_extra(4) not_Some_eq zero_le)
qed

lemma count_loans_ok:
  assumes "count_loans xs info = Inr info'"
  shows "\<forall>x \<in> set xs. in_known_state x \<and> \<not> in_active_state x"
  using assms
  by (induction xs arbitrary: info)
     (auto simp: IsLoanActive_eq Let_def split: if_splits)

lemma count_loans_active:
  assumes "\<forall>x \<in> set xs. in_known_state x" and "\<exists>x \<in> set xs. in_active_state x"
  shows "count_loans xs info = Inl ErrLoanAlreadyExists"
  using assms
  by (induction xs arbitrary: info)
     (auto simp: IsLoanActive_eq Let_def split: if_splits)

section \<open>Histories that are not well formed\<close>

lemma ActiveLoan_error:
  assumes "1 < num_active h \<or> (\<exists>loan \<in> set (LoanRecords h). \<not> in_known_state loan)"
  shows "\<exists>e. ActiveLoanForLoanHistory h = Inl e"
  unfolding ActiveLoanForLoanHistory_def
  using assms by (intro active_loop_error) (auto simp: num_active_def)

lemma get_history_Some: "histories s uid = Some h \<Longrightarrow> get_history s uid = h"
  by (simp add: get_history_def)

text \<open>
  Claim C10. For a stored history with more than one record in an active state, or with a
  record whose state is outside the enumeration, \<open>ActiveLoanForLoanHistory\<close> returns an
  error, and each of the six loan operations fails and leaves the store as it was. The
  state \<open>ACCEPTED\<close> counts as active and \<open>REJECTED\<close> as inactive.
\<close>

theorem corrupt_history_rejected:
  assumes "histories s uid = Some h"
    and "1 < num_active h \<or> (\<exists>loan \<in> set (LoanRecords h). \<not> in_known_state loan)"
  shows "(\<exists>e. ActiveLoanForLoanHistory h = Inl e)
       \<and> (\<exists>e. LoanRequestFun d uid created now request s = (s, Inl e))
       \<and> (\<exists>e. GetActiveLoan uid now s = (s, Inl e))
       \<and> (\<exists>e. SelectLoanOffer uid now selection s = (s, Inl e))
       \<and> (\<exists>e. Repay uid now timestamp s = (s, Inl e))
       \<and> (\<exists>e. DeleteActiveLoan uid s = (s, Inl e))
       \<and> (\<exists>e. GetLoans uid now s = (s, Inl e))
       \<and> IsLoanActive (loan\<lparr>State := ''ACCEPTED''\<rparr>) = Inr True
       \<and> IsLoanActive (loan\<lparr>State := ''REJECTED''\<rparr>) = Inr False"
proof -
  from ActiveLoan_error [OF assms(2)] obtain e where e: "ActiveLoanForLoanHistory h = Inl e"
    by blast
  note g = get_history_Some [OF assms(1)]
  have d: "DefaultActiveLoanIfNecessary now h = (h, False, Some e)"
    by (simp add: Default_unfold e)
  have "\<exists>e. LoanRequestFun d uid created now request s = (s, Inl e)"
    by (auto simp: LoanRequestFun_def LoanRequestTx_def RunInTransaction_def Let_def g d
        split: option.splits)
  moreover have "GetActiveLoan uid now s = (s, Inl e)"
    by (simp add: GetActiveLoan_def DefaultCheckTx_def RunInTransaction_def g d)
  moreover have "\<exists>e. SelectLoanOffer uid now selection s = (s, Inl e)"
    by (simp add: SelectLoanOffer_def SelectLoanOfferTx_def RunInTransaction_def g e
        split: option.splits)
  moreover have "\<exists>e. Repay uid now timestamp s = (s, Inl e)"
    by (simp add: Repay_def RepayTx_def RunInTransaction_def g e split: option.splits)
  moreover have "DeleteActiveLoan uid s = (s, Inl e)"
    by (simp add: DeleteActiveLoan_def DeleteActiveLoanTx_def RunInTransaction_def g e)
  moreover have "GetLoans uid now s = (s, Inl e)"
    by (simp add: GetLoans_def DefaultCheckTx_def RunInTransaction_def g d)
  moreover have "IsLoanActive (loan\<lparr>State := ''ACCEPTED''\<rparr>) = Inr True
       \<and> IsLoanActive (loan\<lparr>State := ''REJECTED''\<rparr>) = Inr False"
    by (simp add: IsLoanActive_def)
  ultimately show ?thesis using e by blast
qed

theorem corrupt_history_rejected_witness:
  "histories corrupt_store ''u'' = Some \<lparr>LoanRecords = [approved_loan, sent_loan]\<rparr>
   \<and> num_active \<lparr>LoanRecords = [approved_loan, sent_loan]\<rparr> = 2
   \<and> ActiveLoanForLoanHistory \<lparr>LoanRecords = [approved_loan, sent_loan]\<rparr> = Inl ErrMultipleActiveLoans
   \<and> (\<exists>e. LoanRequestFun naive_driver ''u'' 0 0 sample_request corrupt_store = (corrupt_store, Inl e))
   \<and> (\<exists>e. GetActiveLoan ''u'' 0 corrupt_store = (corrupt_store, Inl e))
   \<and> (\<exists>e. SelectLoanOffer ''u'' 0 sample_select corrupt_store = (corrupt_store, Inl e))
   \<and> (\<exists>e. Repay ''u'' 0 0 corrupt_store = (corrupt_store, Inl e))
   \<and> (\<exists>e. DeleteActiveLoan ''u'' corrupt_store = (corrupt_store, Inl e))
   \<and> (\<exists>e. GetLoans ''u'' 0 corrupt_store = (corrupt_store, Inl e))"
proof -
  have h: "histories corrupt_store ''u'' = Some \<lparr>LoanRecords = [approved_loan, sent_loan]\<rparr>"
    by (simp add: corrupt_store_def)
  have n: "num_active \<lparr>LoanRecords = [approved_loan, sent_loan]\<rparr> = 2"
    by (simp add: num_active_def in_active_state_def approved_loan_def sent_loan_def)
  have a: "ActiveLoanForLoanHistory \<lparr>LoanRecords = [approved_loan, sent_loan]\<rparr>
             = Inl ErrMultipleActiveLoans"
    by (simp add: ActiveLoanForLoanHistory_def IsLoanActive_def approved_loan_def sent_loan_def)
  have c: "1 < num_active \<lparr>LoanRecords = [approved_loan, sent_loan]\<rparr>
         \<or> (\<exists>loan \<in> set (LoanRecords \<lparr>LoanRecords = [approved_loan, sent_loan]\<rparr>).
               \<not> in_known_state loan)"
    using n by simp
  from corrupt_history_rejected [OF h c, of naive_driver 0 0 sample_request sample_select 0]
    h n a
  show ?thesis by blast
qed

section \<open>Repayment\<close>

lemma Default_fires:
  assumes "ActiveLoanForLoanHistory h = Inr (Some i)"
    and "State (LoanRecords h ! i) = ''SENT''"
  shows "DefaultActiveLoanIfNecessary now h =
           (if DueDate (LoanRecords h ! i) = 0 then (h, False, Some ErrDueDateNotSet)
            else if DueDate (LoanRecords h ! i) < now * 1000
            then (h\<lparr>LoanRecords := (LoanRecords h)[i := (LoanRecords h ! i)\<lparr>State := ''DEFAULTED''\<rparr>]\<rparr>,
                  True, None)
            else (h, False, None))"
  using assms by (simp add: Default_unfold)

text \<open>
  Claim C2. For a registered user whose active record is \<open>SENT\<close> with accepted terms:
  when the default check reports no modification and no error, \<open>Repay\<close> appends one
  repayment of the amount owed, adds collateral plus reward to the user's balance and
  moves the record to \<open>REPAID\<close>; when the check fired, \<open>Repay\<close> stores the defaulted
  history, leaves the users as they were and fails with \<open>ErrLoanInDefault\<close>. The check
  fires exactly when the due date is set and before the clock.
\<close>

theorem repay_settlement:
  assumes "users s uid = Some user"
    and "histories s uid = Some h"
    and "ActiveLoanForLoanHistory h = Inr (Some i)"
    and "State (LoanRecords h ! i) = ''SENT''"
    and "AcceptedTerms (LoanRecords h ! i) = Some accepted"
  shows "(snd (DefaultActiveLoanIfNecessary now h) = (False, None) \<longrightarrow>
            Repay uid now paid s =
              (put_history
                 (put_user s uid
                    (user\<lparr>QinBalance := QinBalance user + (QinRequired accepted + QinReward accepted)\<rparr>))
                 uid
                 (h\<lparr>LoanRecords := (LoanRecords h)[i := (LoanRecords h ! i)\<lparr>
                      Repayments := Repayments (LoanRecords h ! i)
                        @ [\<lparr>RepaymentAmount = AmountOwed accepted, Timestamp = paid * 1000\<rparr>],
                      RepaidDate := paid * 1000,
                      State := ''REPAID''\<rparr>]\<rparr>),
               Inr ((LoanRecords h ! i)\<lparr>
                      Repayments := Repayments (LoanRecords h ! i)
                        @ [\<lparr>RepaymentAmount = AmountOwed accepted, Timestamp = paid * 1000\<rparr>],
                      RepaidDate := paid * 1000,
                      State := ''REPAID'',
                      Request := None\<rparr>)))
       \<and> (snd (DefaultActiveLoanIfNecessary now h) = (True, None) \<longrightarrow>
            Repay uid now paid s =
              (put_history s uid
                 (h\<lparr>LoanRecords := (LoanRecords h)[i := (LoanRecords h ! i)\<lparr>State := ''DEFAULTED''\<rparr>]\<rparr>),
               Inl ErrLoanInDefault)
            \<and> users (fst (Repay uid now paid s)) = users s)
       \<and> (snd (DefaultActiveLoanIfNecessary now h) = (False, None)
            \<longleftrightarrow> DueDate (LoanRecords h ! i) \<noteq> 0 \<and> \<not> DueDate (LoanRecords h ! i) < now * 1000)
       \<and> (snd (DefaultActiveLoanIfNecessary now h) = (True, None)
            \<longleftrightarrow> DueDate (LoanRecords h ! i) \<noteq> 0 \<and> DueDate (LoanRecords h ! i) < now * 1000)"
proof -
  note g = get_history_Some [OF assms(2)]
  note d = Default_fires [OF assms(3,4), of now]
  have a: "Repay uid now paid s =
              (put_history
                 (put_user s uid
                    (user\<lparr>QinBalance := QinBalance user + (QinRequired accepted + QinReward accepted)\<rparr>))
                 uid
                 (h\<lparr>LoanRecords := (LoanRecords h)[i := (LoanRecords h ! i)\<lparr>
                      Repayments := Repayments (LoanRecords h ! i)
                        @ [\<lparr>RepaymentAmount = AmountOwed accepted, Timestamp = paid * 1000\<rparr>],
                      RepaidDate := paid * 1000,
                      State := ''REPAID''\<rparr>]\<rparr>),
               Inr ((LoanRecords h ! i)\<lparr>
                      Repayments := Repayments (LoanRecords h ! i)
                        @ [\<lparr>RepaymentAmount = AmountOwed accepted, Timestamp = paid * 1000\<rparr>],
                      RepaidDate := paid * 1000,
                      State := ''REPAID'',
                      Request := None\<rparr>))"
    if "snd (DefaultActiveLoanIfNecessary now h) = (False, None)"
  proof -
    from that d have "DefaultActiveLoanIfNecessary now h = (h, False, None)"
      by (simp split: if_splits)
    then show ?thesis
      using assms by (simp add: Repay_def RepayTx_def RunInTransaction_def Let_def g)
  qed
  have b: "Repay uid now paid s =
              (put_history s uid
                 (h\<lparr>LoanRecords := (LoanRecords h)[i := (LoanRecords h ! i)\<lparr>State := ''DEFAULTED''\<rparr>]\<rparr>),
               Inl ErrLoanInDefault)"
    if "snd (DefaultActiveLoanIfNecessary now h) = (True, None)"
  proof -
    from that d have "DefaultActiveLoanIfNecessary now h =
        (h\<lparr>LoanRecords := (LoanRecords h)[i := (LoanRecords h ! i)\<lparr>State := ''DEFAULTED''\<rparr>]\<rparr>,
         True, None)"
      by (simp split: if_splits)
    then show ?thesis
      using assms by (simp add: Repay_def RepayTx_def RunInTransaction_def Let_def g)
  qed
  have c: "users (fst (Repay uid now paid s)) = users s"
    if "snd (DefaultActiveLoanIfNecessary now h) = (True, None)"
    using b [OF that] by (simp add: put_history_def)
  have e: "(snd (DefaultActiveLoanIfNecessary now h) = (False, None)
            \<longleftrightarrow> DueDate (LoanRecords h ! i) \<noteq> 0 \<and> \<not> DueDate (LoanRecords h ! i) < now * 1000)"
    "(snd (DefaultActiveLoanIfNecessary now h) = (True, None)
            \<longleftrightarrow> DueDate (LoanRecords h ! i) \<noteq> 0 \<and> DueDate (LoanRecords h ! i) < now * 1000)"
    by (simp_all add: d)
  from a b c e show ?thesis by blast
qed

lemma settlement_active:
  "ActiveLoanForLoanHistory \<lparr>LoanRecords = [settlement_loan]\<rparr> = Inr (Some 0)"
  by (simp add: ActiveLoanForLoanHistory_def IsLoanActive_def sample_defs)

theorem repay_settlement_witness:
  "users settlement_store ''u'' = Some sample_user
   \<and> QinBalance sample_user = 10
   \<and> histories settlement_store ''u'' = Some \<lparr>LoanRecords = [settlement_loan]\<rparr>
   \<and> ActiveLoanForLoanHistory \<lparr>LoanRecords = [settlement_loan]\<rparr> = Inr (Some 0)
   \<and> State settlement_loan = ''SENT''
   \<and> AcceptedTerms settlement_loan = Some settlement_terms
   \<and> QinRequired settlement_terms = 10 \<and> QinReward settlement_terms = 1
   \<and> AmountOwed settlement_terms = 1050
   \<and> snd (DefaultActiveLoanIfNecessary 0 \<lparr>LoanRecords = [settlement_loan]\<rparr>) = (False, None)
   \<and> map_option QinBalance (users (fst (Repay ''u'' 0 5 settlement_store)) ''u'') = Some 21
   \<and> map State (LoanRecords (get_history (fst (Repay ''u'' 0 5 settlement_store)) ''u''))
        = [''REPAID'']
   \<and> map Repayments (LoanRecords (get_history (fst (Repay ''u'' 0 5 settlement_store)) ''u''))
        = [[\<lparr>RepaymentAmount = 1050, Timestamp = 5000\<rparr>]]
   \<and> snd (DefaultActiveLoanIfNecessary 2592001 \<lparr>LoanRecords = [settlement_loan]\<rparr>) = (True, None)
   \<and> snd (Repay ''u'' 2592001 2592001 settlement_store) = Inl ErrLoanInDefault
   \<and> map_option QinBalance (users (fst (Repay ''u'' 2592001 2592001 settlement_store)) ''u'')
        = Some 10
   \<and> map State (LoanRecords (get_history (fst (Repay ''u'' 2592001 2592001 settlement_store)) ''u''))
        = [''DEFAULTED'']"
proof -
  have u: "users settlement_store ''u'' = Some sample_user"
    and h: "histories settlement_store ''u'' = Some \<lparr>LoanRecords = [settlement_loan]\<rparr>"
    by (simp_all add: settlement_store_def)
  have st: "State (LoanRecords \<lparr>LoanRecords = [settlement_loan]\<rparr> ! 0) = ''SENT''"
    and ac: "AcceptedTerms (LoanRecords \<lparr>LoanRecords = [settlement_loan]\<rparr> ! 0) = Some settlement_terms"
    by (simp_all add: sample_defs)
  have d0: "snd (DefaultActiveLoanIfNecessary 0 \<lparr>LoanRecords = [settlement_loan]\<rparr>) = (False, None)"
    and d1: "snd (DefaultActiveLoanIfNecessary 2592001 \<lparr>LoanRecords = [settlement_loan]\<rparr>) = (True, None)"
    by (subst Default_fires [OF settlement_active st], simp add: sample_defs)+
  from repay_settlement [OF u h settlement_active st ac, of 0 5]
    repay_settlement [OF u h settlement_active st ac, of 2592001 2592001]
    u h settlement_active st ac d0 d1
  show ?thesis
    by (simp add: put_history_def put_user_def get_history_def sample_defs)
qed

section \<open>At most one active loan\<close>

lemma count_loans_inactive:
  assumes "\<forall>x \<in> set xs. in_known_state x \<and> \<not> in_active_state x"
  shows "\<exists>info'. count_loans xs info = Inr info'"
  using assms
  by (induction xs arbitrary: info) (auto simp: IsLoanActive_eq Let_def)

lemma LoanRequestFun_failure:
  assumes "LoanRequestFun d uid created now request s = (s', Inl e)"
  shows "s' = s"
  using assms
  unfolding LoanRequestFun_def RunInTransaction_def Let_def
  by (auto split: if_splits sum.splits prod.splits)

lemma num_active_append:
  "num_active (h\<lparr>LoanRecords := LoanRecords h @ [x]\<rparr>)
     = num_active h + (if in_active_state x then 1 else 0)"
  by (simp add: num_active_def)

lemma num_active_replace:
  assumes "ActiveLoanForLoanHistory h = Inr (Some i)"
  shows "num_active (h\<lparr>LoanRecords := (LoanRecords h)[i := y]\<rparr>) \<le> 1"
proof -
  from ActiveLoan_Some [OF assms] have "i < length (LoanRecords h)"
    "in_active_state (LoanRecords h ! i)" "num_active h = 1"
    by simp_all
  from num_active_update [OF this(1,2), of y] this(3) show ?thesis
    by (simp split: if_splits)
qed

lemma LoanRequestFun_effect:
  "hist_effect s uid (fst (LoanRequestFun d uid created now request s))"
proof (cases "LoanRequestFun d uid created now request s")
  case (Pair s' r)
  show ?thesis
  proof (cases r)
    case (Inl e)
    with Pair LoanRequestFun_failure [of d uid created now request s s' e] show ?thesis
      by (simp add: hist_effect_def)
  next
    case (Inr loan)
    from LoanRequestFun_success [OF Pair [unfolded Inr]] obtain user h m info where
      dflt: "DefaultActiveLoanIfNecessary now (get_history s uid) = (h, m, None)"
      and cnt: "count_loans (LoanRecords h)
              \<lparr>no_loans = 0, successful_loans = 0, earned_qin = QinBalance user\<rparr> = Inr info"
      and s': "s' = put_history s uid (h\<lparr>LoanRecords := LoanRecords h
                   @ [loan\<lparr>Request := Some (request\<lparr>RequestUser := Some user\<rparr>)\<rparr>]\<rparr>)"
      by blast
    from count_loans_ok [OF cnt] have "num_active h = 0"
      by (simp add: num_active_def filter_empty_count)
    then have "num_active (h\<lparr>LoanRecords := LoanRecords h
                   @ [loan\<lparr>Request := Some (request\<lparr>RequestUser := Some user\<rparr>)\<rparr>]\<rparr>) \<le> 1"
      by (simp add: num_active_append)
    with s' Pair show ?thesis
      by (auto simp: hist_effect_def put_history_def)
  qed
qed

lemma DefaultCheckTx_effect:
  assumes "DefaultCheckTx uid now s = Inr (s', h)"
  shows "hist_effect s uid s'"
proof -
  obtain h1 m err where d: "DefaultActiveLoanIfNecessary now (get_history s uid) = (h1, m, err)"
    by (cases "DefaultActiveLoanIfNecessary now (get_history s uid)") auto
  with assms have "err = None" and s': "s' = (if m then put_history s uid h1 else s)"
    by (auto simp: DefaultCheckTx_def split: option.splits if_splits)
  with d Default_ok_num_active [of now "get_history s uid" h1 m] show ?thesis
    by (auto simp: hist_effect_def put_history_def)
qed

lemma GetActiveLoan_effect: "hist_effect s uid (fst (GetActiveLoan uid now s))"
proof (cases "DefaultCheckTx uid now s")
  case (Inl e)
  then show ?thesis
    by (simp add: GetActiveLoan_def RunInTransaction_def hist_effect_def)
next
  case (Inr p)
  then obtain s' h where p: "DefaultCheckTx uid now s = Inr (s', h)" by (cases p) auto
  then have "fst (GetActiveLoan uid now s) = s'"
    by (simp add: GetActiveLoan_def RunInTransaction_def split: sum.splits option.splits)
  with DefaultCheckTx_effect [OF p] show ?thesis by simp
qed

lemma GetLoans_effect: "hist_effect s uid (fst (GetLoans uid now s))"
proof (cases "DefaultCheckTx uid now s")
  case (Inl e)
  then show ?thesis
    by (simp add: GetLoans_def RunInTransaction_def hist_effect_def)
next
  case (Inr p)
  then obtain s' h where p: "DefaultCheckTx uid now s = Inr (s', h)" by (cases p) auto
  then have "fst (GetLoans uid now s) = s'"
    by (simp add: GetLoans_def RunInTransaction_def)
  with DefaultCheckTx_effect [OF p] show ?thesis by simp
qed

lemma SelectLoanOfferTx_effect:
  assumes "SelectLoanOfferTx uid now selection s = Inr (s', a)"
  shows "hist_effect s uid s'"
proof -
  from assms obtain i y where
    "ActiveLoanForLoanHistory (get_history s uid) = Inr (Some i)"
    "histories s' = (histories s)(uid \<mapsto>
        (get_history s uid)\<lparr>LoanRecords := (LoanRecords (get_history s uid))[i := y]\<rparr>)"
    unfolding SelectLoanOfferTx_def Let_def
    by (auto simp: put_history_def put_user_def
        split: option.splits sum.splits if_splits prod.splits)
  with num_active_replace [of "get_history s uid" i y] show ?thesis
    by (auto simp: hist_effect_def)
qed

lemma SelectLoanOffer_effect: "hist_effect s uid (fst (SelectLoanOffer uid now selection s))"
proof (cases "SelectLoanOfferTx uid now selection s")
  case (Inl e)
  then show ?thesis
    by (simp add: SelectLoanOffer_def RunInTransaction_def hist_effect_def)
next
  case (Inr p)
  then obtain s' a where p: "SelectLoanOfferTx uid now selection s = Inr (s', a)"
    by (cases p) auto
  then have "fst (SelectLoanOffer uid now selection s) = s' \<or> fst (SelectLoanOffer uid now selection s) = s"
    by (simp add: SelectLoanOffer_def RunInTransaction_def)
  with SelectLoanOfferTx_effect [OF p] show ?thesis
    by (auto simp: hist_effect_def)
qed

lemma RepayTx_effect:
  assumes "RepayTx uid now paid s = Inr (s', r)"
  shows "hist_effect s uid s'"
proof -
  from assms obtain i where i: "ActiveLoanForLoanHistory (get_history s uid) = Inr (Some i)"
    unfolding RepayTx_def by (auto split: option.splits sum.splits if_splits)
  obtain h1 m err where d: "DefaultActiveLoanIfNecessary now (get_history s uid) = (h1, m, err)"
    by (cases "DefaultActiveLoanIfNecessary now (get_history s uid)") auto
  show ?thesis
  proof (cases m)
    case True
    with assms i d have "histories s' = (histories s)(uid \<mapsto> h1)" and "err = None"
      unfolding RepayTx_def Let_def
      by (auto simp: put_history_def split: option.splits sum.splits if_splits)
    with d Default_ok_num_active [of now "get_history s uid" h1 m] show ?thesis
      by (auto simp: hist_effect_def)
  next
    case False
    with d Default_not_modified [of now "get_history s uid" h1 err]
    have h1: "h1 = get_history s uid" by simp
    from assms i d False h1 obtain y where
      "histories s' = (histories s)(uid \<mapsto>
         (get_history s uid)\<lparr>LoanRecords := (LoanRecords (get_history s uid))[i := y]\<rparr>)"
      unfolding RepayTx_def Let_def
      by (auto simp: put_history_def put_user_def split: option.splits sum.splits if_splits)
    with num_active_replace [OF i, of y] show ?thesis
      by (auto simp: hist_effect_def)
  qed
qed

lemma Repay_effect: "hist_effect s uid (fst (Repay uid now paid s))"
proof (cases "RepayTx uid now paid s")
  case (Inl e)
  then show ?thesis
    by (simp add: Repay_def RunInTransaction_def hist_effect_def)
next
  case (Inr p)
  then obtain s' r where p: "RepayTx uid now paid s = Inr (s', r)" by (cases p) auto
  then have "fst (Repay uid now paid s) = s'"
    by (cases r) (simp add: Repay_def RunInTransaction_def)
  with RepayTx_effect [OF p] show ?thesis by simp
qed

lemma DeleteActiveLoan_effect: "hist_effect s uid (fst (DeleteActiveLoan uid s))"
proof (cases "DeleteActiveLoanTx uid s")
  case (Inl e)
  then show ?thesis
    by (simp add: DeleteActiveLoan_def RunInTransaction_def hist_effect_def)
next
  case (Inr p)
  then obtain s' where p: "DeleteActiveLoanTx uid s = Inr (s', ())" by (cases p) auto
  then obtain i y where
    "ActiveLoanForLoanHistory (get_history s uid) = Inr (Some i)"
    "histories s' = (histories s)(uid \<mapsto>
        (get_history s uid)\<lparr>LoanRecords := (LoanRecords (get_history s uid))[i := y]\<rparr>)"
    unfolding DeleteActiveLoanTx_def Let_def
    by (auto simp: put_history_def split: option.splits sum.splits if_splits)
  with num_active_replace [of "get_history s uid" i y]
  have "hist_effect s uid s'" by (auto simp: hist_effect_def)
  moreover from p have "fst (DeleteActiveLoan uid s) = s'"
    by (simp add: DeleteActiveLoan_def RunInTransaction_def)
  ultimately show ?thesis by simp
qed

lemma user_handlers_effect:
  "histories (fst (CreateUser uid created user s)) = histories s"
  "histories (fst (PatchUser uid user s)) = histories s"
  by (auto simp: CreateUser_def PatchUser_def RunInTransaction_def put_user_def Let_def
      split: option.splits)

lemma step_effect: "\<exists>uid. hist_effect s uid (step op s)"
proof (cases op)
  case (OpCreateUser uid created user)
  then show ?thesis by (auto simp: hist_effect_def user_handlers_effect)
next
  case (OpPatchUser uid user)
  then show ?thesis by (auto simp: hist_effect_def user_handlers_effect)
next
  case (OpRequestLoan d uid created now request)
  then show ?thesis using LoanRequestFun_effect [of s uid d created now request] by (intro exI [of _ uid]) simp
next
  case (OpGetActiveLoan uid now)
  then show ?thesis using GetActiveLoan_effect [of s uid now] by (intro exI [of _ uid]) simp
next
  case (OpSelectOffer uid now selection)
  then show ?thesis using SelectLoanOffer_effect [of s uid now selection] by (intro exI [of _ uid]) simp
next
  case (OpRepay uid now paid)
  then show ?thesis using Repay_effect [of s uid now paid] by (intro exI [of _ uid]) simp
next
  case (OpCancelActiveLoan uid)
  then show ?thesis using DeleteActiveLoan_effect [of s uid] by (intro exI [of _ uid]) simp
next
  case (OpListLoans uid now)
  then show ?thesis using GetLoans_effect [of s uid now] by (intro exI [of _ uid]) simp
qed

lemma step_invariant:
  assumes "\<forall>uid h. histories s uid = Some h \<longrightarrow> num_active h \<le> 1"
  shows "\<forall>uid h. histories (step op s) uid = Some h \<longrightarrow> num_active h \<le> 1"
proof -
  from step_effect [of s op] obtain u where "hist_effect s u (step op s)" by blast
  with assms show ?thesis
    by (auto simp: hist_effect_def split: if_splits)
qed

lemma run_invariant:
  assumes "\<forall>uid h. histories s uid = Some h \<longrightarrow> num_active h \<le> 1"
  shows "\<forall>uid h. histories (run ops s) uid = Some h \<longrightarrow> num_active h \<le> 1"
  using assms
proof (induction ops arbitrary: s)
  case Nil
  then show ?case by simp
next
  case (Cons op ops)
  from Cons.IH [OF step_invariant [OF Cons.prems]] show ?case by simp
qed

text \<open>
  Claim C1, as amended. In every store reached from one without loans by any sequence of
  operations, each history has at most one record in an active state. A request for which
  an active record remains after the lazy default check fails with
  \<open>ErrLoanAlreadyExists\<close> and leaves the store as it was; a request that succeeds found no
  active record after that check and leaves exactly one.
\<close>

theorem single_active_loan:
  assumes "s = run ops (no_loans_yet us)"
  shows "(\<forall>uid h. histories s uid = Some h \<longrightarrow> num_active h \<le> 1)
       \<and> (\<forall>d uid created now (request :: LoanRequest) user emp res h1 m.
             DefaultActiveLoanIfNecessary now (get_history s uid) = (h1, m, None)
             \<and> 0 < num_active h1
             \<and> RequestUser request = None \<and> LoanAmount request \<noteq> 0
             \<and> users s uid = Some user
             \<and> UserEmploymentInfo user = Some emp \<and> UserResidenceInfo user = Some res
             \<longrightarrow> LoanRequestFun d uid created now request s = (s, Inl ErrLoanAlreadyExists))
       \<and> (\<forall>d uid created now (request :: LoanRequest) s' loan.
             LoanRequestFun d uid created now request s = (s', Inr loan)
             \<longrightarrow> num_active (fst (DefaultActiveLoanIfNecessary now (get_history s uid))) = 0
               \<and> num_active (get_history s' uid) = 1)"
proof (intro conjI allI impI)
  fix uid h
  assume "histories s uid = Some h"
  moreover have "\<forall>uid h. histories (no_loans_yet us) uid = Some h \<longrightarrow> num_active h \<le> 1"
    by (simp add: no_loans_yet_def)
  ultimately show "num_active h \<le> 1"
    using run_invariant [of "no_loans_yet us" ops] assms by blast
next
  fix d uid created now and request :: LoanRequest and user emp res h1 m
  assume a: "DefaultActiveLoanIfNecessary now (get_history s uid) = (h1, m, None)
             \<and> 0 < num_active h1
             \<and> RequestUser request = None \<and> LoanAmount request \<noteq> 0
             \<and> users s uid = Some user
             \<and> UserEmploymentInfo user = Some emp \<and> UserResidenceInfo user = Some res"
  then have known: "\<forall>x \<in> set (LoanRecords h1). in_known_state x"
    using Default_ok_num_active [of now "get_history s uid" h1 m] by simp
  from a have "filter in_active_state (LoanRecords h1) \<noteq> []"
    by (auto simp: num_active_def)
  then have "\<exists>x \<in> set (LoanRecords h1). in_active_state x"
    by (auto simp: filter_empty_conv)
  from count_loans_active [OF known this]
  have "count_loans (LoanRecords h1)
          \<lparr>no_loans = 0, successful_loans = 0, earned_qin = QinBalance user\<rparr>
        = Inl ErrLoanAlreadyExists" .
  with a show "LoanRequestFun d uid created now request s = (s, Inl ErrLoanAlreadyExists)"
    by (simp add: LoanRequestFun_def LoanRequestTx_def RunInTransaction_def Let_def)
next
  fix d uid created now and request :: LoanRequest and s' loan
  assume a: "LoanRequestFun d uid created now request s = (s', Inr loan)"
  from LoanRequestFun_success [OF a] obtain user h m info where
    dflt: "DefaultActiveLoanIfNecessary now (get_history s uid) = (h, m, None)"
    and cnt: "count_loans (LoanRecords h)
            \<lparr>no_loans = 0, successful_loans = 0, earned_qin = QinBalance user\<rparr> = Inr info"
    and st: "State loan = ''APPROVED''"
    and s': "s' = put_history s uid (h\<lparr>LoanRecords := LoanRecords h
                 @ [loan\<lparr>Request := Some (request\<lparr>RequestUser := Some user\<rparr>)\<rparr>]\<rparr>)"
    by blast
  from count_loans_ok [OF cnt] have z: "num_active h = 0"
    by (simp add: num_active_def filter_empty_count)
  with dflt show "num_active (fst (DefaultActiveLoanIfNecessary now (get_history s uid))) = 0"
    by simp
  from s' z st show "num_active (get_history s' uid) = 1"
    by (simp add: get_history_def put_history_def num_active_append in_active_state_def)
qed

lemma first_select:
  "SelectLoanOffer ''u'' 0 sample_select approved_store = (sent_store, Inr (sent_loan\<lparr>Request := None\<rparr>))"
  by (simp add: handler_defs sample_defs signed_divide_int_def)

lemma sent_store_reached:
  "run [OpRequestLoan naive_driver ''u'' 0 0 sample_request, OpSelectOffer ''u'' 0 sample_select]
     (no_loans_yet [''u'' \<mapsto> sample_user]) = sent_store"
  by (simp add: first_request first_select)

lemma second_request_refused:
  "LoanRequestFun naive_driver ''u'' 1 1 sample_request approved_store
     = (approved_store, Inl ErrLoanAlreadyExists)"
  by (simp add: request_defs sample_defs)

theorem single_active_loan_witness:
  "approved_store = run [OpRequestLoan naive_driver ''u'' 0 0 sample_request]
                      (no_loans_yet [''u'' \<mapsto> sample_user])
   \<and> histories approved_store ''u'' = Some \<lparr>LoanRecords = [approved_loan]\<rparr>
   \<and> num_active \<lparr>LoanRecords = [approved_loan]\<rparr> \<le> 1
   \<and> num_active \<lparr>LoanRecords = [approved_loan]\<rparr> = 1
   \<and> DefaultActiveLoanIfNecessary 1 (get_history approved_store ''u'')
        = (\<lparr>LoanRecords = [approved_loan]\<rparr>, False, None)
   \<and> users approved_store ''u'' = Some sample_user
   \<and> LoanRequestFun naive_driver ''u'' 1 1 sample_request approved_store
        = (approved_store, Inl ErrLoanAlreadyExists)"
proof -
  have r: "approved_store = run [OpRequestLoan naive_driver ''u'' 0 0 sample_request]
                      (no_loans_yet [''u'' \<mapsto> sample_user])"
    by (simp add: first_request)
  have h: "histories approved_store ''u'' = Some \<lparr>LoanRecords = [approved_loan]\<rparr>"
    and u: "users approved_store ''u'' = Some sample_user"
    by (simp_all add: approved_store_def)
  have n: "num_active \<lparr>LoanRecords = [approved_loan]\<rparr> = 1"
    by (simp add: num_active_def in_active_state_def approved_loan_def)
  have d: "DefaultActiveLoanIfNecessary 1 (get_history approved_store ''u'')
        = (\<lparr>LoanRecords = [approved_loan]\<rparr>, False, None)"
    by (simp add: handler_defs approved_store_def approved_loan_def)
  from single_active_loan [OF r] have
    "num_active \<lparr>LoanRecords = [approved_loan]\<rparr> \<le> 1"
    using h by blast
  with r h u n d second_request_refused show ?thesis by simp
qed

text \<open>
  The claim as stated fails where the active record is an overdue \<open>SENT\<close> record: the
  store \<open>sent_store\<close> is reached by a request and a selection, its record is active, and a
  request 30 days later defaults that record and appends a new one.
\<close>

theorem request_after_default_counterexample:
  "run [OpRequestLoan naive_driver ''u'' 0 0 sample_request, OpSelectOffer ''u'' 0 sample_select]
     (no_loans_yet [''u'' \<mapsto> sample_user]) = sent_store
   \<and> LoanRecords (get_history sent_store ''u'') = [sent_loan]
   \<and> in_active_state sent_loan
   \<and> IsLoanActive sent_loan = Inr True
   \<and> map State (LoanRecords (get_history
        (fst (LoanRequestFun naive_driver ''u'' 2592001 2592001 sample_request sent_store)) ''u''))
       = [''DEFAULTED'', ''APPROVED'']
   \<and> map_sum id LoanId (snd (LoanRequestFun naive_driver ''u'' 2592001 2592001 sample_request sent_store))
       = Inr ''u-1''"
proof (intro conjI)
  show "run [OpRequestLoan naive_driver ''u'' 0 0 sample_request, OpSelectOffer ''u'' 0 sample_select]
     (no_loans_yet [''u'' \<mapsto> sample_user]) = sent_store"
    by (rule sent_store_reached)
qed (simp_all add: request_defs sample_defs in_active_state_def)

section \<open>Where the lazy default check runs\<close>

text \<open>
  Claim C3, as amended. Let the active record of a user's history be \<open>SENT\<close> and overdue.
  \<open>GetActiveLoan\<close>, \<open>GetLoans\<close> and, for a registered user, \<open>Repay\<close> store the history
  with that record \<open>DEFAULTED\<close>. A loan request that succeeds stores the defaulted history
  with the new record appended, one that fails stores nothing, and a well-formed request
  of a user with employment and residence data succeeds when the driver returns.
  \<open>SelectLoanOffer\<close> and \<open>DeleteActiveLoan\<close> do not run the check: they leave the store as
  it was and fail with \<open>ErrLoanInWrongState\<close>.
\<close>

theorem lazy_default_check_evaluated:
  assumes "histories s uid = Some h"
    and "ActiveLoanForLoanHistory h = Inr (Some i)"
    and "State (LoanRecords h ! i) = ''SENT''"
    and "DueDate (LoanRecords h ! i) \<noteq> 0"
    and "DueDate (LoanRecords h ! i) < now * 1000"
    and "defaulted = h\<lparr>LoanRecords := (LoanRecords h)[i := (LoanRecords h ! i)\<lparr>State := ''DEFAULTED''\<rparr>]\<rparr>"
  shows "GetActiveLoan uid now s = (put_history s uid defaulted, Inl ErrNoActiveLoan)
       \<and> fst (GetLoans uid now s) = put_history s uid defaulted
       \<and> (users s uid \<noteq> None \<longrightarrow>
            Repay uid now paid s = (put_history s uid defaulted, Inl ErrLoanInDefault))
       \<and> (LoanRequestFun d uid created now request s = (s', Inr loan) \<longrightarrow>
            (\<exists>stored. State stored = ''APPROVED''
               \<and> s' = put_history s uid (defaulted\<lparr>LoanRecords := LoanRecords defaulted @ [stored]\<rparr>)))
       \<and> (LoanRequestFun d uid created now request s = (s'', Inl e) \<longrightarrow> s'' = s)
       \<and> (RequestUser request = None \<and> LoanAmount request \<noteq> 0
            \<and> users s uid = Some user
            \<and> UserEmploymentInfo user = Some emp \<and> UserResidenceInfo user = Some res
            \<and> (\<forall>info. \<exists>r. processBorrowerRequest d
                               (borrower_app_of uid (LoanAmount request) emp) info = Inr r)
            \<longrightarrow> (\<exists>loan'. snd (LoanRequestFun d uid created now request s) = Inr loan'))
       \<and> fst (SelectLoanOffer uid now' selection s) = s
       \<and> (users s uid \<noteq> None
            \<and> (SelectedTerm selection \<noteq> [] \<or> LocationName (SelectLocation selection) \<noteq> [])
            \<longrightarrow> snd (SelectLoanOffer uid now' selection s) = Inl ErrLoanInWrongState)
       \<and> DeleteActiveLoan uid s = (s, Inl ErrLoanInWrongState)"
proof -
  note g = get_history_Some [OF assms(1)]
  have d: "DefaultActiveLoanIfNecessary now h = (defaulted, True, None)"
    using assms by (simp add: Default_fires)
  from Default_modified_inactive [OF d]
  have inactive: "\<forall>x \<in> set (LoanRecords defaulted). in_known_state x \<and> \<not> in_active_state x" .
  then have none: "ActiveLoanForLoanHistory defaulted = Inr None"
    by (rule ActiveLoan_inactive)
  have get: "GetActiveLoan uid now s = (put_history s uid defaulted, Inl ErrNoActiveLoan)"
    by (simp add: GetActiveLoan_def DefaultCheckTx_def RunInTransaction_def g d none)
  have list: "fst (GetLoans uid now s) = put_history s uid defaulted"
    by (simp add: GetLoans_def DefaultCheckTx_def RunInTransaction_def g d)
  have repay: "Repay uid now paid s = (put_history s uid defaulted, Inl ErrLoanInDefault)"
    if "users s uid \<noteq> None"
    using that assms(2,3)
    by (auto simp: Repay_def RepayTx_def RunInTransaction_def Let_def g d)
  have req_ok: "\<exists>stored. State stored = ''APPROVED''
               \<and> s' = put_history s uid (defaulted\<lparr>LoanRecords := LoanRecords defaulted @ [stored]\<rparr>)"
    if "LoanRequestFun d uid created now request s = (s', Inr loan)"
  proof -
    from LoanRequestFun_success [OF that] obtain u h1 m where
      "DefaultActiveLoanIfNecessary now (get_history s uid) = (h1, m, None)"
      "State loan = ''APPROVED''"
      "s' = put_history s uid (h1\<lparr>LoanRecords := LoanRecords h1
                 @ [loan\<lparr>Request := Some (request\<lparr>RequestUser := Some u\<rparr>)\<rparr>]\<rparr>)"
      by blast
    with g d show ?thesis
      by (intro exI [of _ "loan\<lparr>Request := Some (request\<lparr>RequestUser := Some u\<rparr>)\<rparr>"]) simp
  qed
  have req_fail: "s'' = s" if "LoanRequestFun d uid created now request s = (s'', Inl e)"
    using that by (rule LoanRequestFun_failure)
  have req_runs: "\<exists>loan'. snd (LoanRequestFun d uid created now request s) = Inr loan'"
    if a: "RequestUser request = None \<and> LoanAmount request \<noteq> 0
            \<and> users s uid = Some user
            \<and> UserEmploymentInfo user = Some emp \<and> UserResidenceInfo user = Some res
            \<and> (\<forall>info. \<exists>r. processBorrowerRequest d
                               (borrower_app_of uid (LoanAmount request) emp) info = Inr r)"
  proof -
    from count_loans_inactive [OF inactive] obtain info where
      c: "count_loans (LoanRecords defaulted)
            \<lparr>no_loans = 0, successful_loans = 0, earned_qin = QinBalance user\<rparr> = Inr info"
      by blast
    from a obtain rs n where
      "processBorrowerRequest d (borrower_app_of uid (LoanAmount request) emp) info = Inr (rs, n)"
      by (metis surj_pair)
    with a c show ?thesis
      by (simp add: LoanRequestFun_def LoanRequestTx_def RunInTransaction_def Let_def g d)
  qed
  have sel: "fst (SelectLoanOffer uid now' selection s) = s"
    using assms(2,3)
    by (simp add: SelectLoanOffer_def SelectLoanOfferTx_def RunInTransaction_def Let_def g
        split: option.splits)
  have sel_err: "snd (SelectLoanOffer uid now' selection s) = Inl ErrLoanInWrongState"
    if "users s uid \<noteq> None
            \<and> (SelectedTerm selection \<noteq> [] \<or> LocationName (SelectLocation selection) \<noteq> [])"
    using that assms(2,3)
    by (auto simp: SelectLoanOffer_def SelectLoanOfferTx_def RunInTransaction_def Let_def g)
  have del: "DeleteActiveLoan uid s = (s, Inl ErrLoanInWrongState)"
    using assms(2,3)
    by (simp add: DeleteActiveLoan_def DeleteActiveLoanTx_def RunInTransaction_def Let_def g)
  from get list repay req_ok req_fail req_runs sel sel_err del show ?thesis
    by blast
qed

lemma sent_active:
  "ActiveLoanForLoanHistory \<lparr>LoanRecords = [sent_loan]\<rparr> = Inr (Some 0)"
  by (simp add: ActiveLoanForLoanHistory_def IsLoanActive_def sample_defs)

theorem lazy_default_check_evaluated_witness:
  "histories sent_store ''u'' = Some \<lparr>LoanRecords = [sent_loan]\<rparr>
   \<and> ActiveLoanForLoanHistory \<lparr>LoanRecords = [sent_loan]\<rparr> = Inr (Some 0)
   \<and> State sent_loan = ''SENT''
   \<and> DueDate sent_loan = 2592000000
   \<and> DueDate sent_loan < 2592001 * 1000
   \<and> users sent_store ''u'' = Some sample_user
   \<and> GetActiveLoan ''u'' 2592001 sent_store
        = (put_history sent_store ''u'' \<lparr>LoanRecords = [sent_loan\<lparr>State := ''DEFAULTED''\<rparr>]\<rparr>,
           Inl ErrNoActiveLoan)
   \<and> fst (GetLoans ''u'' 2592001 sent_store)
        = put_history sent_store ''u'' \<lparr>LoanRecords = [sent_loan\<lparr>State := ''DEFAULTED''\<rparr>]\<rparr>
   \<and> Repay ''u'' 2592001 2592001 sent_store
        = (put_history sent_store ''u'' \<lparr>LoanRecords = [sent_loan\<lparr>State := ''DEFAULTED''\<rparr>]\<rparr>,
           Inl ErrLoanInDefault)
   \<and> SelectLoanOffer ''u'' 2592001 sample_select sent_store = (sent_store, Inl ErrLoanInWrongState)
   \<and> DeleteActiveLoan ''u'' sent_store = (sent_store, Inl ErrLoanInWrongState)"
proof -
  have h: "histories sent_store ''u'' = Some \<lparr>LoanRecords = [sent_loan]\<rparr>"
    and u: "users sent_store ''u'' = Some sample_user"
    by (simp_all add: sent_store_def)
  have st: "State (LoanRecords \<lparr>LoanRecords = [sent_loan]\<rparr> ! 0) = ''SENT''"
    and due: "DueDate (LoanRecords \<lparr>LoanRecords = [sent_loan]\<rparr> ! 0) \<noteq> 0"
    and over: "DueDate (LoanRecords \<lparr>LoanRecords = [sent_loan]\<rparr> ! 0) < 2592001 * 1000"
    and dd: "DueDate sent_loan = 2592000000"
    by (simp_all add: sent_loan_def approved_loan_def)
  have defaulted: "\<lparr>LoanRecords = [sent_loan\<lparr>State := ''DEFAULTED''\<rparr>]\<rparr>
          = \<lparr>LoanRecords = [sent_loan]\<rparr>\<lparr>LoanRecords :=
              (LoanRecords \<lparr>LoanRecords = [sent_loan]\<rparr>)
                [0 := (LoanRecords \<lparr>LoanRecords = [sent_loan]\<rparr> ! 0)\<lparr>State := ''DEFAULTED''\<rparr>]\<rparr>"
    by simp
  have sl: "SelectedTerm sample_select \<noteq> []"
    by (simp add: sample_select_def)
  from lazy_default_check_evaluated [OF h sent_active st due over defaulted,
      where paid = 2592001 and now' = 2592001 and selection = sample_select]
    h u sent_active st dd over sl
  show ?thesis
    by (cases "SelectLoanOffer ''u'' 2592001 sample_select sent_store") simp
qed

text \<open>
  The claim as stated fails for selecting and for cancelling: on the overdue record of
  \<open>sent_store\<close> both leave the record \<open>SENT\<close>.
\<close>

theorem select_and_cancel_skip_default_counterexample:
  "LoanRecords (get_history sent_store ''u'') = [sent_loan]
   \<and> State sent_loan = ''SENT''
   \<and> DueDate sent_loan = 2592000000
   \<and> DueDate sent_loan < 2592001 * 1000
   \<and> DeleteActiveLoan ''u'' sent_store = (sent_store, Inl ErrLoanInWrongState)
   \<and> SelectLoanOffer ''u'' 2592001 sample_select sent_store = (sent_store, Inl ErrLoanInWrongState)
   \<and> map State (LoanRecords (get_history (fst (DeleteActiveLoan ''u'' sent_store)) ''u''))
       = [''SENT'']
   \<and> map State (LoanRecords (get_history
        (fst (SelectLoanOffer ''u'' 2592001 sample_select sent_store)) ''u'')) = [''SENT'']"
  by (simp add: handler_defs sample_defs)

end
